theory Spec2Isabelle
  imports Main
begin

section \<open>The realtime connection layer of the exo desktop shell\<close>

text \<open>
  The Electron main process (\<^verbatim>\<open>main.js\<close>) keeps one WebSocket client to the backend and
  reconnects it when it closes; \<^verbatim>\<open>scripts/container-integration.js\<close> finds the Docker
  container to talk to, probes its two ports and stores the last container used. The
  module-level variables of \<^verbatim>\<open>main.js\<close> become one record that every handler takes and
  returns. What a handler does to the outside (console output, IPC to the renderer,
  dialogs, socket calls, timers, the configuration file) is appended to a trace. A
  console entry records the level and the text of the message; the objects printed
  after the text (the error caught, the data received) are left out, as is the text of
  the error caught in the box that reports a failed container start. The functions are
  \<^verbatim>\<open>async\<close> only to wait for a probe or a dialog; each is one uninterrupted step here.
\<close>

subsection \<open>Strings\<close>

text \<open>The character of a digit below ten.\<close>

definition digit_char :: "nat \<Rightarrow> char" where
  "digit_char n = ''0123456789'' ! n"

text \<open>Decimal rendering of a number inside a template literal.\<close>

fun show_nat :: "nat \<Rightarrow> string" where
  "show_nat n = (if n < 10 then [digit_char n] else show_nat (n div 10) @ [digit_char (n mod 10)])"

declare show_nat.simps [simp del]

text \<open>
  \<^verbatim>\<open>String.prototype.trim\<close> on the output of a docker command. The commands print ASCII,
  so the white space to strip is tab, line feed, vertical tab, form feed, carriage return
  and space.
\<close>

definition is_space :: "char \<Rightarrow> bool" where
  "is_space c = (c \<in> set [CHR 0x09, CHR 0x0A, CHR 0x0B, CHR 0x0C, CHR 0x0D, CHR 0x20])"

definition trim :: "string \<Rightarrow> string" where
  "trim s = rev (dropWhile is_space (rev (dropWhile is_space s)))"

text \<open>\<^verbatim>\<open>s.split(d)\<close> for a one-character separator: never the empty array.\<close>

fun split_on :: "char \<Rightarrow> string \<Rightarrow> string list" where
  "split_on d [] = [[]]"
| "split_on d (c # cs) =
     (if c = d then [] # split_on d cs
      else (case split_on d cs of [] \<Rightarrow> [[c]] | x # xs \<Rightarrow> (c # x) # xs))"

text \<open>Reading an array element that may be missing (\<^verbatim>\<open>undefined\<close> is \<open>None\<close>).\<close>

definition nth_opt :: "'a list \<Rightarrow> nat \<Rightarrow> 'a option" where
  "nth_opt xs i = (if i < length xs then Some (xs ! i) else None)"

text \<open>JavaScript truthiness of a value that is a string or \<^verbatim>\<open>null\<close>.\<close>

fun truthy :: "string option \<Rightarrow> bool" where
  "truthy None = False"
| "truthy (Some s) = (s \<noteq> [])"

subsection \<open>Data\<close>

text \<open>\<^verbatim>\<open>DEFAULT_CONFIG\<close> and the objects read from and written to \<^verbatim>\<open>container-config.json\<close>.\<close>

record config =
  containerHost :: string
  containerPort :: nat
  websocketPort :: nat
  autoConnect :: bool
  lastContainer :: "string option"

definition DEFAULT_CONFIG :: config where
  "DEFAULT_CONFIG = \<lparr>containerHost = ''localhost'', containerPort = 8080,
     websocketPort = 8765, autoConnect = True, lastContainer = None\<rparr>"

text \<open>One line of \<^verbatim>\<open>docker ps\<close>, destructured; a missing field is \<^verbatim>\<open>undefined\<close>.\<close>

record container =
  cid :: string
  cname :: "string option"
  image :: "string option"
  status :: "string option"

record connection_info =
  webUrl :: string
  websocketUrl :: string

text \<open>
  What a TCP connect to a host and port does: the \<^verbatim>\<open>connect\<close> callback runs after so many
  milliseconds, the \<^verbatim>\<open>error\<close> event comes after so many milliseconds, or neither ever
  happens.
\<close>

datatype probe = Connects nat | Errors nat | Silent

text \<open>
  The world outside the process at the moment a discovery function runs: the docker
  commands (\<open>None\<close> when \<^verbatim>\<open>execSync\<close> throws), the network, whether the configuration file
  can be written, and the button the user presses in a message box.
\<close>

record env =
  docker_version :: bool
  docker_ps :: "string option"
  docker_inspect :: "string \<Rightarrow> string option"
  docker_images :: "string \<Rightarrow> string option"
  docker_run :: "string \<Rightarrow> string option"
  tcp :: "string \<Rightarrow> nat \<Rightarrow> probe"
  fs_write_ok :: bool
  dialog_response :: nat

datatype readyState = CONNECTING | OPEN | CLOSING | CLOSED

record socket =
  sock_url :: string
  ready :: readyState

datatype level = Log | Warn | Error

datatype 'j effect =
    Console level string
  | ConnectionStatus bool
  | FromBackend 'j
  | WsNew nat string
  | WsSend nat string
  | WsClose nat
  | SetTimeout string nat
  | ErrorBox string string
  | WriteFile config
  | NoContainersDialog
  | SelectDialog "string list"

text \<open>
  The module state of \<^verbatim>\<open>main.js\<close>. \<open>wsClient\<close> is the index of the current socket object in
  \<open>sockets\<close>, the list of all socket objects created so far (an object that is no longer
  the current one still fires its handlers); \<open>timers\<close> are the pending \<^verbatim>\<open>setTimeout\<close>
  callbacks, oldest first, each holding the URL its closure captured; \<open>configFile\<close> is
  the content of \<^verbatim>\<open>container-config.json\<close>.
\<close>

record 'j main =
  mainWindow :: bool
  wsClient :: "nat option"
  sockets :: "socket list"
  containerConfig :: config
  configFile :: "config option"
  isConnected :: bool
  reconnectAttempts :: nat
  timers :: "string list"
  trace :: "'j effect list"

definition MAX_RECONNECT_ATTEMPTS :: nat where
  "MAX_RECONNECT_ATTEMPTS = 5"

definition RECONNECT_INTERVAL :: nat where
  "RECONNECT_INTERVAL = 2000"

definition PROBE_TIMEOUT :: nat where
  "PROBE_TIMEOUT = 1000"

definition emit :: "'j effect list \<Rightarrow> 'j main \<Rightarrow> 'j main" where
  "emit es s = s\<lparr>trace := trace s @ es\<rparr>"

subsection \<open>container-integration.js\<close>

definition saveConfig :: "env \<Rightarrow> config \<Rightarrow> 'j main \<Rightarrow> 'j main" where
  "saveConfig e c s =
     (if fs_write_ok e then (emit [WriteFile c] s)\<lparr>configFile := Some c\<rparr>
      else emit [WriteFile c, Console Error ''Error saving configuration:''] s)"

definition checkDocker :: "env \<Rightarrow> bool" where
  "checkDocker e = docker_version e"

definition parse_line :: "string \<Rightarrow> container" where
  "parse_line line =
     (let fs = split_on CHR ''|'' line
      in \<lparr>cid = (case fs of [] \<Rightarrow> [] | x # _ \<Rightarrow> x), cname = nth_opt fs 1,
          image = nth_opt fs 2, status = nth_opt fs 3\<rparr>)"

definition listContainers :: "env \<Rightarrow> 'j main \<Rightarrow> container list \<times> 'j main" where
  "listContainers e s =
     (case docker_ps e of
        Some output \<Rightarrow> (map parse_line (split_on (CHR 0x0A) (trim output)), s)
      | None \<Rightarrow> ([], emit [Console Error ''Error listing containers:''] s))"

definition getContainerIP :: "env \<Rightarrow> string \<Rightarrow> 'j main \<Rightarrow> string option \<times> 'j main" where
  "getContainerIP e containerId s =
     (case docker_inspect e containerId of
        Some output \<Rightarrow> (Some (trim output), s)
      | None \<Rightarrow> (None, emit [Console Error ''Error getting container IP:''] s))"

text \<open>
  The promise of \<^verbatim>\<open>checkPort\<close> resolves once, with the first of three callbacks: the
  1000 ms timer (false), \<^verbatim>\<open>connect\<close> (true) or \<^verbatim>\<open>error\<close> (false). A callback that is due
  at the same millisecond as the timer runs after it.
\<close>

definition checkPort :: "env \<Rightarrow> string \<Rightarrow> nat \<Rightarrow> bool" where
  "checkPort e host port =
     (case tcp e host port of
        Connects t \<Rightarrow> t < PROBE_TIMEOUT
      | Errors t \<Rightarrow> False
      | Silent \<Rightarrow> False)"

text \<open>
  Both call sites pass the module's \<open>containerConfig\<close> object, which the function mutates
  in place; a thrown \<^verbatim>\<open>Error\<close> is \<open>Inl\<close> of its message.
\<close>

definition connectToContainer ::
  "env \<Rightarrow> string \<Rightarrow> 'j main \<Rightarrow> (string + connection_info) \<times> 'j main" where
  "connectToContainer e containerId s =
     (case getContainerIP e containerId s of (ipo, s1) \<Rightarrow>
        if \<not> truthy ipo then (Inl ''Failed to get container IP address'', s1)
        else
          let containerIP = the ipo; config = containerConfig s1 in
          if \<not> checkPort e containerIP (containerPort config)
          then (Inl (''Web server port '' @ show_nat (containerPort config)
                      @ '' is not open on the container''), s1)
          else if \<not> checkPort e containerIP (websocketPort config)
          then (Inl (''WebSocket port '' @ show_nat (websocketPort config)
                      @ '' is not open on the container''), s1)
          else
            let config' = config\<lparr>containerHost := containerIP,
                                  lastContainer := Some containerId\<rparr>;
                s2 = saveConfig e config' (s1\<lparr>containerConfig := config'\<rparr>)
            in (Inr \<lparr>webUrl = ''http://'' @ containerIP @ '':'' @ show_nat (containerPort config),
                     websocketUrl = ''ws://'' @ containerIP @ '':'' @ show_nat (websocketPort config)\<rparr>,
                s2))"

text \<open>\<^verbatim>\<open>startContainer\<close>: \<open>None\<close> when it throws (after logging).\<close>

definition startContainer :: "env \<Rightarrow> string \<Rightarrow> 'j main \<Rightarrow> string option \<times> 'j main" where
  "startContainer e imageName s =
     (case docker_images e imageName of
        None \<Rightarrow> (None, emit [Console Error ''Error starting container:''] s)
      | Some images \<Rightarrow>
          if trim images = [] then (None, emit [Console Error ''Error starting container:''] s)
          else (case docker_run e imageName of
                  None \<Rightarrow> (None, emit [Console Error ''Error starting container:''] s)
                | Some out \<Rightarrow> (Some (trim out), s)))"

text \<open>
  The dialog of the integration module. The message box answers with the index of the
  pressed button; the buttons are one per listed container and then Cancel.
\<close>

definition ci_showContainerSelectionDialog ::
  "env \<Rightarrow> 'j main \<Rightarrow> string option \<times> 'j main" where
  "ci_showContainerSelectionDialog e s =
     (case listContainers e s of (containers, s1) \<Rightarrow>
        if length containers = 0 then
          let s2 = emit [NoContainersDialog] s1 in
          if dialog_response e = 0 then
            (case startContainer e ''exo:latest'' s2 of
               (Some containerId, s3) \<Rightarrow> (Some containerId, s3)
             | (None, s3) \<Rightarrow> (None, emit [ErrorBox ''Error'' ''Failed to start container: ''] s3))
          else (None, s2)
        else
          let options = map cid containers;
              s2 = emit [SelectDialog options] s1 in
          if dialog_response e < length options
          then (Some (options ! dialog_response e), s2)
          else (None, s2))"

subsection \<open>main.js: the WebSocket client\<close>

definition showConnectionError :: "string \<Rightarrow> 'j main \<Rightarrow> 'j main" where
  "showConnectionError message s =
     emit [ErrorBox ''Connection Error''
             (if message \<noteq> [] then message
              else ''Failed to connect to the container. Please check that the container is running and try again.'')] s"

definition showDockerNotInstalledError :: "'j main \<Rightarrow> 'j main" where
  "showDockerNotInstalledError s =
     emit [ErrorBox ''Docker Not Installed''
             ''Docker is required to run the exo backend in a container. Please install Docker and restart the application.''] s"

definition sock :: "'j main \<Rightarrow> nat \<Rightarrow> socket option" where
  "sock s c = nth_opt (sockets s) c"

definition set_ready :: "nat \<Rightarrow> readyState \<Rightarrow> 'j main \<Rightarrow> 'j main" where
  "set_ready c r s =
     (case sock s c of
        None \<Rightarrow> s
      | Some k \<Rightarrow> s\<lparr>sockets := (sockets s)[c := k\<lparr>ready := r\<rparr>]\<rparr>)"

text \<open>\<^verbatim>\<open>wsClient && wsClient.readyState === WebSocket.OPEN\<close>\<close>

definition wsClient_open :: "'j main \<Rightarrow> bool" where
  "wsClient_open s =
     (case wsClient s of
        None \<Rightarrow> False
      | Some c \<Rightarrow> (case sock s c of None \<Rightarrow> False | Some k \<Rightarrow> ready k = OPEN))"

text \<open>
  \<^verbatim>\<open>disconnectFromContainer\<close>. Calling \<^verbatim>\<open>close()\<close> on an open socket starts the closing
  handshake: the socket is CLOSING until its \<^verbatim>\<open>close\<close> event. No timer is touched, and the
  handlers stay on the socket object that is dropped.
\<close>

definition disconnectFromContainer :: "'j main \<Rightarrow> 'j main" where
  "disconnectFromContainer s =
     (case wsClient s of
        None \<Rightarrow> s\<lparr>isConnected := False\<rparr>
      | Some c \<Rightarrow>
          (if wsClient_open s then emit [WsClose c] (set_ready c CLOSING s) else s)
            \<lparr>wsClient := None, isConnected := False\<rparr>)"

text \<open>
  \<^verbatim>\<open>connectToContainerWebSocket\<close>. \<open>valid\<close> says for which URLs \<^verbatim>\<open>new WebSocket(url)\<close>
  returns an object; for the others it throws, and the function returns false with
  \<open>wsClient\<close> still \<^verbatim>\<open>null\<close>. The four handlers are attached to the new object.
\<close>

definition connectToContainerWebSocket ::
  "(string \<Rightarrow> bool) \<Rightarrow> string \<Rightarrow> 'j main \<Rightarrow> bool \<times> 'j main" where
  "connectToContainerWebSocket valid url s =
     (let s1 = disconnectFromContainer s;
          s2 = emit [Console Log (''Connecting to WebSocket at '' @ url @ ''...'')] s1
      in if valid url
         then (True, (emit [WsNew (length (sockets s2)) url] s2)
                       \<lparr>sockets := sockets s2 @ [\<lparr>sock_url = url, ready = CONNECTING\<rparr>],
                        wsClient := Some (length (sockets s2))\<rparr>)
         else (False, emit [Console Error ''Error connecting to WebSocket:''] s2))"

text \<open>The handler of \<^verbatim>\<open>open\<close>.\<close>

definition on_open :: "'j main \<Rightarrow> 'j main" where
  "on_open s =
     (let s1 = (emit [Console Log ''Connected to container WebSocket''] s)
                 \<lparr>isConnected := True, reconnectAttempts := 0\<rparr>
      in if mainWindow s1 then emit [ConnectionStatus True] s1 else s1)"

text \<open>
  The handler of \<^verbatim>\<open>message\<close>. \<open>parse\<close> is \<^verbatim>\<open>JSON.parse\<close>, \<open>None\<close> where it throws; the
  \<^verbatim>\<open>catch\<close> logs and the handler returns.
\<close>

definition on_message :: "(string \<Rightarrow> 'j option) \<Rightarrow> string \<Rightarrow> 'j main \<Rightarrow> 'j main" where
  "on_message parse message s =
     (case parse message of
        Some data \<Rightarrow>
          (let s1 = emit [Console Log ''Received from backend:''] s
           in if mainWindow s1 then emit [FromBackend data] s1 else s1)
      | None \<Rightarrow> emit [Console Error ''Error parsing message:''] s)"

text \<open>The handler of \<^verbatim>\<open>close\<close>; \<open>url\<close> is the argument its closure captured.\<close>

definition on_close :: "string \<Rightarrow> 'j main \<Rightarrow> 'j main" where
  "on_close url s =
     (let s1 = (emit [Console Log ''WebSocket connection closed''] s)\<lparr>isConnected := False\<rparr>;
          s2 = (if mainWindow s1 then emit [ConnectionStatus False] s1 else s1)
      in if reconnectAttempts s2 < MAX_RECONNECT_ATTEMPTS
         then
           (let s3 = s2\<lparr>reconnectAttempts := reconnectAttempts s2 + 1\<rparr>;
                s4 = emit [Console Log (''Reconnecting (attempt '' @ show_nat (reconnectAttempts s3)
                             @ ''/'' @ show_nat MAX_RECONNECT_ATTEMPTS @ '')...'')] s3
            in (emit [SetTimeout url RECONNECT_INTERVAL] s4)\<lparr>timers := timers s4 @ [url]\<rparr>)
         else showConnectionError [] (emit [Console Log ''Max reconnect attempts reached''] s2))"

text \<open>The handler of \<^verbatim>\<open>error\<close>.\<close>

definition on_error :: "'j main \<Rightarrow> 'j main" where
  "on_error s = emit [Console Error ''WebSocket error:''] s"

text \<open>
  \<^verbatim>\<open>ipcMain.on('to-backend')\<close>; \<open>stringify\<close> is \<^verbatim>\<open>JSON.stringify\<close>.
\<close>

definition to_backend :: "('j \<Rightarrow> string) \<Rightarrow> 'j \<Rightarrow> 'j main \<Rightarrow> 'j main" where
  "to_backend stringify data s =
     (let s1 = emit [Console Log ''Sending to backend:''] s
      in if wsClient_open s1
         then emit [WsSend (the (wsClient s1)) (stringify data)] s1
         else
           (let s2 = emit [Console Warn ''Cannot send message: WebSocket not connected''] s1
            in if reconnectAttempts s2 = 0 then showConnectionError [] s2 else s2))"

subsection \<open>main.js: discovery\<close>

definition showContainerSelectionDialog ::
  "(string \<Rightarrow> bool) \<Rightarrow> env \<Rightarrow> 'j main \<Rightarrow> 'j main" where
  "showContainerSelectionDialog valid e s =
     (case ci_showContainerSelectionDialog e s of (containerId, s1) \<Rightarrow>
        if truthy containerId then
          (case connectToContainer e (the containerId) s1 of
             (Inr connectionInfo, s2) \<Rightarrow>
                snd (connectToContainerWebSocket valid (websocketUrl connectionInfo) s2)
           | (Inl message, s2) \<Rightarrow>
                showConnectionError message
                  (emit [Console Error ''Error connecting to container:''] s2))
        else s1)"

definition checkContainerConnection ::
  "(string \<Rightarrow> bool) \<Rightarrow> env \<Rightarrow> 'j main \<Rightarrow> 'j main" where
  "checkContainerConnection valid e s =
     (if \<not> checkDocker e then showDockerNotInstalledError s
      else if autoConnect (containerConfig s) \<and> truthy (lastContainer (containerConfig s))
      then
        (case listContainers e s of (containers, s1) \<Rightarrow>
           if list_ex (\<lambda>container. Some (cid container) = lastContainer (containerConfig s1)) containers
           then
             (case connectToContainer e (the (lastContainer (containerConfig s1))) s1 of
                (Inr connectionInfo, s2) \<Rightarrow>
                   snd (connectToContainerWebSocket valid (websocketUrl connectionInfo) s2)
              | (Inl message, s2) \<Rightarrow>
                   showContainerSelectionDialog valid e
                     (emit [Console Error ''Error auto-connecting to container:''] s2))
           else showContainerSelectionDialog valid e s1)
      else showContainerSelectionDialog valid e s)"

subsection \<open>Events\<close>

text \<open>
  What can happen to the process. A socket event names the socket object it belongs to;
  the library changes the object's \<^verbatim>\<open>readyState\<close> and then runs the handler. It delivers
  \<^verbatim>\<open>open\<close> only to a connecting socket, \<^verbatim>\<open>message\<close> only to an open one and \<^verbatim>\<open>close\<close> once.
  All timers have the same delay, so the oldest pending one fires first.
\<close>

datatype 'j event =
    WsOpened nat
  | WsMessage nat string
  | WsError nat
  | WsClosed nat
  | TimerFires
  | ToBackend 'j
  | ConnectToContainer env
  | WindowReady env
  | WindowClosed
  | BeforeQuit

record 'j lib =
  valid_url :: "string \<Rightarrow> bool"
  JSON_parse :: "string \<Rightarrow> 'j option"
  JSON_stringify :: "'j \<Rightarrow> string"

fun step :: "'j lib \<Rightarrow> 'j main \<Rightarrow> 'j event \<Rightarrow> 'j main" where
  "step l s (WsOpened c) =
     (case sock s c of
        Some k \<Rightarrow> if ready k = CONNECTING then on_open (set_ready c OPEN s) else s
      | None \<Rightarrow> s)"
| "step l s (WsMessage c m) =
     (case sock s c of
        Some k \<Rightarrow> if ready k = OPEN then on_message (JSON_parse l) m s else s
      | None \<Rightarrow> s)"
| "step l s (WsError c) =
     (case sock s c of
        Some k \<Rightarrow> if ready k \<noteq> CLOSED then on_error s else s
      | None \<Rightarrow> s)"
| "step l s (WsClosed c) =
     (case sock s c of
        Some k \<Rightarrow> if ready k \<noteq> CLOSED then on_close (sock_url k) (set_ready c CLOSED s) else s
      | None \<Rightarrow> s)"
| "step l s TimerFires =
     (case timers s of
        [] \<Rightarrow> s
      | url # rest \<Rightarrow> snd (connectToContainerWebSocket (valid_url l) url (s\<lparr>timers := rest\<rparr>)))"
| "step l s (ToBackend data) = to_backend (JSON_stringify l) data s"
| "step l s (ConnectToContainer e) = showContainerSelectionDialog (valid_url l) e s"
| "step l s (WindowReady e) = checkContainerConnection (valid_url l) e s"
| "step l s WindowClosed = (disconnectFromContainer s)\<lparr>mainWindow := False\<rparr>"
| "step l s BeforeQuit = disconnectFromContainer s"

definition run :: "'j lib \<Rightarrow> 'j main \<Rightarrow> 'j event list \<Rightarrow> 'j main" where
  "run l s evs = foldl (step l) s evs"

text \<open>The state when the module has been loaded and the window created.\<close>

definition initial :: "config \<Rightarrow> config option \<Rightarrow> 'j main" where
  "initial c f = \<lparr>mainWindow = True, wsClient = None, sockets = [], containerConfig = c,
     configFile = f, isConnected = False, reconnectAttempts = 0, timers = [], trace = []\<rparr>"

subsection \<open>Vocabulary for the properties\<close>

text \<open>What was appended to the trace between two states.\<close>

definition since :: "'j main \<Rightarrow> 'j main \<Rightarrow> 'j effect list" where
  "since s s' = drop (length (trace s)) (trace s')"

text \<open>The frames handed to a socket, the timer delays and the dialogs in a trace.\<close>

fun sends :: "'j effect list \<Rightarrow> string list" where
  "sends [] = []"
| "sends (WsSend c m # es) = m # sends es"
| "sends (x # es) = sends es"

fun delays :: "'j effect list \<Rightarrow> nat list" where
  "delays [] = []"
| "delays (SetTimeout u d # es) = d # delays es"
| "delays (x # es) = delays es"

fun is_prompt :: "'j effect \<Rightarrow> bool" where
  "is_prompt NoContainersDialog = True"
| "is_prompt (SelectDialog ids) = True"
| "is_prompt x = False"




text \<open>How often the \<^verbatim>\<open>close\<close> handler has given up reconnecting.\<close>

definition give_ups :: "'j main \<Rightarrow> nat" where
  "give_ups s = count_list (trace s) (Console Log ''Max reconnect attempts reached'')"

text \<open>How often the box that reports a failed connection has been shown with its standard text.\<close>

definition error_boxes :: "'j main \<Rightarrow> nat" where
  "error_boxes s = count_list (trace s)
     (ErrorBox ''Connection Error''
        ''Failed to connect to the container. Please check that the container is running and try again.'')"


text \<open>The dialogs in a trace.\<close>

definition prompts :: "'j effect list \<Rightarrow> 'j effect list" where
  "prompts es = filter is_prompt es"





text \<open>
  The client is connected through socket \<open>c\<close> to \<open>url\<close>: \<open>c\<close> is the current socket and open,
  the counter is 0 as the \<^verbatim>\<open>open\<close> handler left it, nothing is pending and no other socket
  object is alive.
\<close>

definition connected :: "'j main \<Rightarrow> nat \<Rightarrow> string \<Rightarrow> bool" where
  "connected s c url =
     (wsClient s = Some c \<and> sock s c = Some \<lparr>sock_url = url, ready = OPEN\<rparr> \<and>
      isConnected s \<and> reconnectAttempts s = 0 \<and> timers s = [] \<and>
      list_all (\<lambda>k. ready k = CLOSED) (take c (sockets s) @ drop (Suc c) (sockets s)))"

text \<open>Nothing is pending and no socket object is alive.\<close>

definition idle :: "'j main \<Rightarrow> bool" where
  "idle s = (\<not> isConnected s \<and> timers s = [] \<and> list_all (\<lambda>k. ready k = CLOSED) (sockets s))"

text \<open>The events by which the user starts a discovery.\<close>

fun discovery :: "'j event \<Rightarrow> bool" where
  "discovery (ConnectToContainer e) = True"
| "discovery (WindowReady e) = True"
| "discovery ev = False"

text \<open>The \<^verbatim>\<open>close\<close> events.\<close>

fun closing :: "'j event \<Rightarrow> bool" where
  "closing (WsClosed c) = True"
| "closing ev = False"

text \<open>
  One automatic reconnection attempt that fails: the pending timer fires, the socket it
  creates (the next index) cannot connect, and the library reports \<^verbatim>\<open>error\<close> and then
  \<^verbatim>\<open>close\<close> on it.
\<close>

definition failed_attempt :: "'j lib \<Rightarrow> 'j main \<Rightarrow> 'j main" where
  "failed_attempt l s =
     run l s [TimerFires, WsError (length (sockets s)), WsClosed (length (sockets s))]"

text \<open>
  An outage: the connection through socket \<open>c\<close> drops, and then \<open>k\<close> automatic
  reconnection attempts fail one after the other.
\<close>

definition outage :: "'j lib \<Rightarrow> 'j main \<Rightarrow> nat \<Rightarrow> nat \<Rightarrow> 'j main" where
  "outage l s c k = (failed_attempt l ^^ k) (step l s (WsClosed c))"

text \<open>
  A connection attempt is in flight: \<open>c\<close> is the current socket and still connecting to
  \<open>url\<close>, nothing is pending and no other socket object is alive. The counter is whatever
  earlier failures left.
\<close>

definition connecting :: "'j main \<Rightarrow> nat \<Rightarrow> string \<Rightarrow> bool" where
  "connecting s c url =
     (wsClient s = Some c \<and> sock s c = Some \<lparr>sock_url = url, ready = CONNECTING\<rparr> \<and>
      timers s = [] \<and>
      list_all (\<lambda>k. ready k = CLOSED) (take c (sockets s) @ drop (Suc c) (sockets s)))"

subsection \<open>Scenarios\<close>

definition lib0 :: "string lib" where
  "lib0 = \<lparr>valid_url = (\<lambda>u. True),
           JSON_parse = (\<lambda>m. if m = ''{}'' then Some m else None),
           JSON_stringify = (\<lambda>d. d)\<rparr>"

text \<open>One or two running containers, reachable on both ports; the user picks the first.\<close>

definition env1 :: env where
  "env1 = \<lparr>docker_version = True, docker_ps = Some ''aaa|exo|exo:latest|Up'',
     docker_inspect = (\<lambda>i. Some ''10.0.0.2''), docker_images = (\<lambda>i. None),
     docker_run = (\<lambda>i. None), tcp = (\<lambda>h p. Connects 5), fs_write_ok = True,
     dialog_response = 0\<rparr>"

definition env2 :: env where
  "env2 = env1\<lparr>docker_ps := Some (''aaa|exo|exo:latest|Up'' @ [CHR 0x0A] @ ''bbb|exo2|exo:latest|Up'')\<rparr>"

definition start0 :: "string main" where
  "start0 = initial DEFAULT_CONFIG None"

text \<open>The \<^verbatim>\<open>open\<close> handler has run on the socket of the first connection.\<close>

definition online :: "string main" where
  "online = run lib0 start0 [ConnectToContainer env1, WsOpened 0]"

text \<open>The same container with silent ports, and with a configuration file that cannot be written.\<close>

definition env_closed :: env where
  "env_closed = env1\<lparr>tcp := (\<lambda>h p. Silent)\<rparr>"

definition env_nowrite :: env where
  "env_nowrite = env1\<lparr>fs_write_ok := False\<rparr>"

text \<open>The connection has dropped and the first reconnection timer is pending.\<close>

definition dropped :: "string main" where
  "dropped = run lib0 online [WsClosed 0]"


text \<open>
  While connected, the user selects the container again: the open socket is closed and
  replaced, the new socket opens, and then the \<^verbatim>\<open>close\<close> event of the old one arrives.
\<close>

definition replaced :: "string main" where
  "replaced = run lib0 online [ConnectToContainer env1, WsOpened 1, WsClosed 0]"

text \<open>
  During the first outage, while the reconnection timer is pending, the user selects the
  container again and the new socket opens.
\<close>

definition reselected :: "string main" where
  "reselected = run lib0 dropped [ConnectToContainer env1, WsOpened 1]"




subsection \<open>Vocabulary for the proofs\<close>

text \<open>
  An effect that neither hands a frame to a socket, nor sets a timer, nor reports that
  reconnecting was given up.
\<close>

fun routine :: "'j effect \<Rightarrow> bool" where
  "routine (WsSend c m) = False"
| "routine (SetTimeout u d) = False"
| "routine (Console v m) = (v = Log \<longrightarrow> m \<noteq> ''Max reconnect attempts reached'')"
| "routine x = True"

text \<open>The second state has the trace of the first and then only effects that satisfy \<open>P\<close>.\<close>

definition extends :: "('j effect \<Rightarrow> bool) \<Rightarrow> 'j main \<Rightarrow> 'j main \<Rightarrow> bool" where
  "extends P s s' = (\<exists>es. trace s' = trace s @ es \<and> list_all P es)"

text \<open>
  Between two reconnection attempts: one timer for \<open>u\<close> is pending, \<open>n\<close> attempts have been
  counted and no socket object is alive.
\<close>

definition waiting :: "'j main \<Rightarrow> string \<Rightarrow> nat \<Rightarrow> bool" where
  "waiting s u n = (timers s = [u] \<and> reconnectAttempts s = n \<and> \<not> isConnected s \<and>
     list_all (\<lambda>k. ready k = CLOSED) (sockets s))"

text \<open>
  The frames of the envelopes that \<^verbatim>\<open>to-backend\<close> receives during a run while the current
  socket is open, in the order of the calls.
\<close>

fun sent_while_open :: "'j lib \<Rightarrow> 'j main \<Rightarrow> 'j event list \<Rightarrow> string list" where
  "sent_while_open l s [] = []"
| "sent_while_open l s (ToBackend d # evs) =
     (if wsClient_open s then [JSON_stringify l d] else [])
       @ sent_while_open l (step l s (ToBackend d)) evs"
| "sent_while_open l s (ev # evs) = sent_while_open l (step l s ev) evs"


text \<open>
  The counter is 0, socket \<open>c\<close> is alive and belongs to \<open>u\<close>, and \<^verbatim>\<open>new WebSocket\<close> accepts
  \<open>u\<close> and the URL of every pending timer.
\<close>

definition fresh :: "nat \<Rightarrow> string \<Rightarrow> 'j lib \<Rightarrow> 'j main \<Rightarrow> bool" where
  "fresh c u l s =
     (reconnectAttempts s = 0 \<and> c < length (sockets s) \<and> sock_url (sockets s ! c) = u \<and>
      ready (sockets s ! c) \<noteq> CLOSED \<and> valid_url l u \<and> list_all (valid_url l) (timers s))"

section \<open>Properties\<close>

subsection \<open>Effects of the handlers\<close>

lemma trace_emit [simp]: "trace (emit es s) = trace s @ es"
  by (simp add: emit_def)

lemma extends_refl [simp]: "extends P s s"
  by (simp add: extends_def)

lemma extends_emit: "extends P s s' \<Longrightarrow> list_all P es \<Longrightarrow> extends P s (emit es s')"
  by (auto simp: extends_def)

lemma extends_trace_eq: "extends P s s' \<Longrightarrow> trace s'' = trace s' \<Longrightarrow> extends P s s''"
  by (simp add: extends_def)

text \<open>Discovery.\<close>

lemma ext_saveConfig:
  assumes "\<And>m. P (Console Error m)" "\<And>c. P (WriteFile c)" "extends P s s'"
  shows "extends P s (saveConfig e c s')"
  using assms by (auto simp: saveConfig_def extends_def emit_def)

lemma ext_listContainers:
  assumes "\<And>m. P (Console Error m)" "extends P s s'"
  shows "extends P s (snd (listContainers e s'))"
  using assms by (auto simp: listContainers_def extends_def emit_def split: option.splits)

lemma ext_getContainerIP:
  assumes "\<And>m. P (Console Error m)" "extends P s s'"
  shows "extends P s (snd (getContainerIP e i s'))"
  using assms by (auto simp: getContainerIP_def extends_def emit_def split: option.splits)

lemma ext_startContainer:
  assumes "\<And>m. P (Console Error m)" "extends P s s'"
  shows "extends P s (snd (startContainer e i s'))"
  using assms by (auto simp: startContainer_def extends_def emit_def split: option.splits)

lemma ext_connectToContainer:
  assumes c: "\<And>m. P (Console Error m)" and w: "\<And>c. P (WriteFile c)" and x: "extends P s s'"
  shows "extends P s (snd (connectToContainer e i s'))"
proof -
  obtain ipo s1 where g: "getContainerIP e i s' = (ipo, s1)"
    by (cases "getContainerIP e i s'")
  have s1: "extends P s s1"
    using ext_getContainerIP [of P s s' e i] c x g by simp
  have "extends P s (saveConfig e k (s1\<lparr>containerConfig := k\<rparr>))" for k
    by (rule ext_saveConfig [OF c w]) (rule extends_trace_eq [OF s1], simp)
  with s1 show ?thesis
    by (simp add: connectToContainer_def g Let_def)
qed

lemma ext_ci_dialog:
  assumes c: "\<And>m. P (Console Error m)" and b: "\<And>t m. P (ErrorBox t m)"
    and d: "P NoContainersDialog" "\<And>ids. P (SelectDialog ids)" and x: "extends P s s'"
  shows "extends P s (snd (ci_showContainerSelectionDialog e s'))"
proof -
  obtain cs s1 where g: "listContainers e s' = (cs, s1)"
    by (cases "listContainers e s'")
  have s1: "extends P s s1"
    using ext_listContainers [of P s s' e] c x g by simp
  have n: "extends P s (emit [NoContainersDialog] s1)"
    by (rule extends_emit [OF s1]) (simp add: d)
  have m: "extends P s (emit [SelectDialog ids] s1)" for ids
    by (rule extends_emit [OF s1]) (simp add: d)
  obtain r s3 where st: "startContainer e ''exo:latest'' (emit [NoContainersDialog] s1) = (r, s3)"
    by (cases "startContainer e ''exo:latest'' (emit [NoContainersDialog] s1)")
  have s3: "extends P s s3"
    using ext_startContainer [of P s "emit [NoContainersDialog] s1" e "''exo:latest''"] c n st
    by simp
  have "extends P s (emit [ErrorBox ''Error'' ''Failed to start container: ''] s3)"
    by (rule extends_emit [OF s3]) (simp add: b)
  with n m s3 show ?thesis
    by (simp add: ci_showContainerSelectionDialog_def g Let_def st split: option.splits)
qed

text \<open>The WebSocket client.\<close>

lemma ext_disconnect:
  assumes "\<And>c. P (WsClose c)" "extends P s s'"
  shows "extends P s (disconnectFromContainer s')"
  using assms
  by (auto simp: disconnectFromContainer_def extends_def emit_def set_ready_def split: option.splits)

lemma ext_connectWs:
  assumes "\<And>c. P (WsClose c)" "\<And>v m. P (Console v (''Connecting to WebSocket at '' @ m))"
    "\<And>m. P (Console Error m)" "\<And>c u. P (WsNew c u)" "extends P s s'"
  shows "extends P s (snd (connectToContainerWebSocket v u s'))"
  using ext_disconnect [of P s s'] assms
  by (auto simp: connectToContainerWebSocket_def extends_def emit_def Let_def)

lemma ext_showConnectionError:
  assumes "\<And>t m. P (ErrorBox t m)" "extends P s s'"
  shows "extends P s (showConnectionError m s')"
  using assms by (auto simp: showConnectionError_def extends_def emit_def)

lemma routine_showDialog:
  assumes x: "extends routine s s'"
  shows "extends routine s (showContainerSelectionDialog v e s')"
proof -
  obtain i s1 where g: "ci_showContainerSelectionDialog e s' = (i, s1)"
    by (cases "ci_showContainerSelectionDialog e s'")
  have s1: "extends routine s s1"
    using ext_ci_dialog [of routine s s' e] x g by simp
  obtain r s2 where h: "connectToContainer e (the i) s1 = (r, s2)"
    by (cases "connectToContainer e (the i) s1")
  have s2: "extends routine s s2"
    using ext_connectToContainer [of routine s s1 e "the i"] s1 h by simp
  have a: "extends routine s (snd (connectToContainerWebSocket v u s2))" for u
    by (rule ext_connectWs [OF _ _ _ _ s2]) simp_all
  have "extends routine s
          (showConnectionError m (emit [Console Error ''Error connecting to container:''] s2))" for m
    by (rule ext_showConnectionError, simp, rule extends_emit [OF s2]) simp
  with s1 a show ?thesis
    by (simp add: showContainerSelectionDialog_def g h split: sum.splits)
qed

lemma routine_checkContainerConnection:
  assumes x: "extends routine s s'"
  shows "extends routine s (checkContainerConnection v e s')"
proof -
  obtain cs s1 where g: "listContainers e s' = (cs, s1)"
    by (cases "listContainers e s'")
  have s1: "extends routine s s1"
    using ext_listContainers [of routine s s' e] x g by simp
  obtain r s2 where h: "connectToContainer e (the (lastContainer (containerConfig s1))) s1 = (r, s2)"
    by (cases "connectToContainer e (the (lastContainer (containerConfig s1))) s1")
  have s2: "extends routine s s2"
    using ext_connectToContainer [of routine s s1 e "the (lastContainer (containerConfig s1))"] s1 h
    by simp
  have a: "extends routine s (snd (connectToContainerWebSocket v u s2))" for u
    by (rule ext_connectWs [OF _ _ _ _ s2]) simp_all
  have b: "extends routine s (showContainerSelectionDialog v e
             (emit [Console Error ''Error auto-connecting to container:''] s2))"
    by (rule routine_showDialog, rule extends_emit [OF s2]) simp
  have c: "extends routine s (showContainerSelectionDialog v e s1)"
    by (rule routine_showDialog [OF s1])
  have d: "extends routine s (showContainerSelectionDialog v e s')"
    by (rule routine_showDialog [OF x])
  have f: "extends routine s (showDockerNotInstalledError s')"
    unfolding showDockerNotInstalledError_def by (rule extends_emit [OF x]) simp
  show ?thesis
    using a b c d f
    by (simp add: checkContainerConnection_def g h split: sum.splits)
qed

lemmas client_defs = emit_def sock_def nth_opt_def wsClient_open_def set_ready_def
  disconnectFromContainer_def connectToContainerWebSocket_def on_open_def on_message_def
  on_close_def on_error_def to_backend_def showConnectionError_def Let_def

lemma routine_quiet:
  "list_all routine es \<Longrightarrow>
     sends es = [] \<and> delays es = [] \<and> count_list es (Console Log ''Max reconnect attempts reached'') = 0"
  by (induction es rule: sends.induct) auto

text \<open>What one event adds to the trace.\<close>

lemma step_effects:
  "\<exists>es. trace (step l s ev) = trace s @ es \<and>
     sends es = (case ev of
                   ToBackend d \<Rightarrow> if wsClient_open s then [JSON_stringify l d] else []
                 | _ \<Rightarrow> []) \<and>
     list_all (\<lambda>d. d = RECONNECT_INTERVAL) (delays es) \<and>
     count_list es (Console Log ''Max reconnect attempts reached'') =
       (case ev of
          WsClosed c \<Rightarrow>
            (case sock s c of
               Some k \<Rightarrow> if ready k \<noteq> CLOSED \<and> MAX_RECONNECT_ATTEMPTS \<le> reconnectAttempts s
                          then 1 else 0
             | None \<Rightarrow> 0)
        | _ \<Rightarrow> 0)"
proof (cases ev)
  case (ConnectToContainer e)
  obtain es where "trace (showContainerSelectionDialog (valid_url l) e s) = trace s @ es"
    and "list_all routine es"
    using routine_showDialog [of s s "valid_url l" e] by (auto simp: extends_def)
  with ConnectToContainer show ?thesis
    using routine_quiet [of es] by simp
next
  case (WindowReady e)
  obtain es where "trace (checkContainerConnection (valid_url l) e s) = trace s @ es"
    and "list_all routine es"
    using routine_checkContainerConnection [of s s "valid_url l" e] by (auto simp: extends_def)
  with WindowReady show ?thesis
    using routine_quiet [of es] by simp
qed (auto simp: client_defs split: option.splits list.splits)

subsection \<open>Runs\<close>

lemma sends_append [simp]: "sends (xs @ ys) = sends xs @ sends ys"
  by (induction xs rule: sends.induct) auto

lemma delays_append [simp]: "delays (xs @ ys) = delays xs @ delays ys"
  by (induction xs rule: delays.induct) auto

lemma sends_run: "sends (trace (run l s evs)) = sends (trace s) @ sent_while_open l s evs"
proof (induction evs arbitrary: s)
  case Nil
  then show ?case by (simp add: run_def)
next
  case (Cons ev evs)
  obtain es where es: "trace (step l s ev) = trace s @ es"
    and "sends es = (case ev of ToBackend d \<Rightarrow> if wsClient_open s then [JSON_stringify l d] else []
                 | _ \<Rightarrow> [])"
    using step_effects [of l s ev] by blast
  then have "sends (trace (step l s ev)) @ sent_while_open l (step l s ev) evs
      = sends (trace s) @ sent_while_open l s (ev # evs)"
    by (cases ev) simp_all
  with Cons.IH [of "step l s ev"] show ?case
    by (simp add: run_def)
qed

lemma delays_run:
  "list_all (\<lambda>d. d = RECONNECT_INTERVAL) (delays (trace s)) \<Longrightarrow>
   list_all (\<lambda>d. d = RECONNECT_INTERVAL) (delays (trace (run l s evs)))"
proof (induction evs arbitrary: s)
  case Nil
  then show ?case by (simp add: run_def)
next
  case (Cons ev evs)
  obtain es where "trace (step l s ev) = trace s @ es"
    and "list_all (\<lambda>d. d = RECONNECT_INTERVAL) (delays es)"
    using step_effects [of l s ev] by blast
  with Cons.prems have "list_all (\<lambda>d. d = RECONNECT_INTERVAL) (delays (trace (step l s ev)))"
    by simp
  from Cons.IH [OF this] show ?case
    by (simp add: run_def)
qed

subsection \<open>Evaluating the scenarios\<close>

lemmas discovery_defs = saveConfig_def listContainers_def getContainerIP_def
  connectToContainer_def startContainer_def ci_showContainerSelectionDialog_def
  showContainerSelectionDialog_def checkContainerConnection_def showDockerNotInstalledError_def
  checkDocker_def checkPort_def PROBE_TIMEOUT_def parse_line_def trim_def is_space_def

lemmas scenario_defs = run_def start0_def initial_def lib0_def env1_def env2_def env_closed_def
  env_nowrite_def DEFAULT_CONFIG_def

lemma show_nat_8765: "show_nat 8765 = ''8765''"
  by (simp add: show_nat.simps digit_char_def)

lemma show_nat_8080: "show_nat 8080 = ''8080''"
  by (simp add: show_nat.simps digit_char_def)

lemma online_eq:
  "online = \<lparr>mainWindow = True, wsClient = Some 0,
    sockets = [\<lparr>sock_url = ''ws://10.0.0.2:8765'', ready = OPEN\<rparr>],
    containerConfig = \<lparr>containerHost = ''10.0.0.2'', containerPort = 8080,
         websocketPort = 8765, autoConnect = True, lastContainer = Some ''aaa''\<rparr>,
    configFile = Some \<lparr>containerHost = ''10.0.0.2'', containerPort = 8080,
          websocketPort = 8765, autoConnect = True, lastContainer = Some ''aaa''\<rparr>,
    isConnected = True, reconnectAttempts = 0, timers = [],
    trace =
      [SelectDialog [''aaa''],
       WriteFile \<lparr>containerHost = ''10.0.0.2'', containerPort = 8080,
           websocketPort = 8765, autoConnect = True, lastContainer = Some ''aaa''\<rparr>,
       Console Log ''Connecting to WebSocket at ws://10.0.0.2:8765...'',
       WsNew 0 ''ws://10.0.0.2:8765'',
       Console Log ''Connected to container WebSocket'',
       ConnectionStatus True]\<rparr>"
  by (simp add: online_def scenario_defs discovery_defs client_defs show_nat_8765 show_nat_8080)

lemma dropped_eq:
  "dropped = online\<lparr>sockets := [\<lparr>sock_url = ''ws://10.0.0.2:8765'', ready = CLOSED\<rparr>],
     isConnected := False, reconnectAttempts := 1, timers := [''ws://10.0.0.2:8765''],
     trace := trace online @
       [Console Log ''WebSocket connection closed'', ConnectionStatus False,
        Console Log ''Reconnecting (attempt 1/5)...'',
        SetTimeout ''ws://10.0.0.2:8765'' 2000]\<rparr>"
  by (simp add: dropped_def online_eq run_def client_defs MAX_RECONNECT_ATTEMPTS_def
        RECONNECT_INTERVAL_def show_nat.simps digit_char_def)

subsection \<open>Outages\<close>

lemma list_all_update_split:
  "c < length xs \<Longrightarrow> list_all P (xs[c := y]) = (P y \<and> list_all P (take c xs @ drop (Suc c) xs))"
  by (auto simp: upd_conv_take_nth_drop)

text \<open>What the \<^verbatim>\<open>close\<close> event of a live socket does, in any state.\<close>

lemma close_event:
  assumes "sock s c = Some k" "ready k \<noteq> CLOSED"
  shows "reconnectAttempts s < 5 \<longrightarrow>
           timers (step l s (WsClosed c)) = timers s @ [sock_url k] \<and>
           reconnectAttempts (step l s (WsClosed c)) = reconnectAttempts s + 1 \<and>
           give_ups (step l s (WsClosed c)) = give_ups s \<and>
           error_boxes (step l s (WsClosed c)) = error_boxes s"
    and "5 \<le> reconnectAttempts s \<longrightarrow>
           timers (step l s (WsClosed c)) = timers s \<and>
           reconnectAttempts (step l s (WsClosed c)) = reconnectAttempts s \<and>
           give_ups (step l s (WsClosed c)) = give_ups s + 1 \<and>
           error_boxes (step l s (WsClosed c)) = error_boxes s + 1"
  using assms
  by (auto simp: give_ups_def error_boxes_def client_defs MAX_RECONNECT_ATTEMPTS_def
        split: option.splits if_splits)

lemma drop_waiting:
  assumes "connected s c u"
  shows "waiting (step l s (WsClosed c)) u 1 \<and> give_ups (step l s (WsClosed c)) = give_ups s \<and>
         length (sockets (step l s (WsClosed c))) = length (sockets s)"
  using assms
  by (auto simp: connected_def waiting_def give_ups_def client_defs MAX_RECONNECT_ATTEMPTS_def
        list_all_update_split split: option.splits if_splits)

lemma drop_waiting_any:
  assumes "sock s c = Some k" "ready k \<noteq> CLOSED" "reconnectAttempts s = 0"
    "timers s = []" "list_all (\<lambda>k. ready k = CLOSED) (take c (sockets s) @ drop (Suc c) (sockets s))"
  shows "waiting (step l s (WsClosed c)) (sock_url k) 1"
  using assms
  by (auto simp: waiting_def client_defs MAX_RECONNECT_ATTEMPTS_def list_all_update_split
        split: option.splits if_splits)

lemma timer_connecting:
  assumes "waiting s u n" "valid_url l u"
  shows "connecting (step l s TimerFires) (length (sockets s)) u \<and>
         reconnectAttempts (step l s TimerFires) = n \<and>
         give_ups (step l s TimerFires) = give_ups s"
  using assms
  by (auto simp: waiting_def connecting_def give_ups_def client_defs list_all_length
        split: option.splits if_splits)

text \<open>One failed attempt, whatever else is pending.\<close>

lemma failed_attempt_any:
  assumes "timers s = u # rest" "list_all (\<lambda>k. ready k = CLOSED) (sockets s)" "valid_url l u"
  shows "list_all (\<lambda>k. ready k = CLOSED) (sockets (failed_attempt l s)) \<and>
         length (sockets (failed_attempt l s)) = Suc (length (sockets s)) \<and>
         \<not> isConnected (failed_attempt l s) \<and>
         (reconnectAttempts s < 5 \<longrightarrow>
            timers (failed_attempt l s) = rest @ [u] \<and>
            reconnectAttempts (failed_attempt l s) = Suc (reconnectAttempts s) \<and>
            give_ups (failed_attempt l s) = give_ups s \<and>
            error_boxes (failed_attempt l s) = error_boxes s) \<and>
         (5 \<le> reconnectAttempts s \<longrightarrow>
            timers (failed_attempt l s) = rest \<and>
            reconnectAttempts (failed_attempt l s) = reconnectAttempts s \<and>
            give_ups (failed_attempt l s) = Suc (give_ups s) \<and>
            error_boxes (failed_attempt l s) = Suc (error_boxes s))"
proof -
  have closed: "ready (sockets s ! c) = CLOSED" if "c < length (sockets s)" for c
    using assms(2) that by (simp add: list_all_length)
  have nopen: "\<not> wsClient_open s"
    using closed by (auto simp: wsClient_open_def sock_def nth_opt_def split: option.splits)
  let ?n = "length (sockets s)"
  let ?s0 = "disconnectFromContainer (s\<lparr>timers := rest\<rparr>)"
  have d: "?s0 = s\<lparr>timers := rest, wsClient := None, isConnected := False\<rparr>"
    using nopen
    by (auto simp: disconnectFromContainer_def wsClient_open_def sock_def nth_opt_def
          split: option.splits)
  let ?s1 = "s\<lparr>timers := rest, wsClient := Some ?n, isConnected := False,
     sockets := sockets s @ [\<lparr>sock_url = u, ready = CONNECTING\<rparr>],
     trace := trace s @ [Console Log (''Connecting to WebSocket at '' @ u @ ''...''), WsNew ?n u]\<rparr>"
  have t: "step l s TimerFires = ?s1"
    using assms(1,3) by (simp add: connectToContainerWebSocket_def d Let_def emit_def)
  let ?s2 = "?s1\<lparr>trace := trace ?s1 @ [Console Error ''WebSocket error:'']\<rparr>"
  have e: "step l ?s1 (WsError ?n) = ?s2"
    by (simp add: sock_def nth_opt_def on_error_def emit_def)
  have k: "sock ?s2 ?n = Some \<lparr>sock_url = u, ready = CONNECTING\<rparr>"
    by (simp add: sock_def nth_opt_def)
  have fa: "failed_attempt l s = step l ?s2 (WsClosed ?n)"
    by (simp only: failed_attempt_def run_def foldl.simps t e)
  have r: "reconnectAttempts ?s2 = reconnectAttempts s" "timers ?s2 = rest"
    "give_ups ?s2 = give_ups s" "error_boxes ?s2 = error_boxes s"
    by (simp_all add: give_ups_def error_boxes_def)
  have c1: "reconnectAttempts s < 5 \<longrightarrow>
            timers (failed_attempt l s) = rest @ [u] \<and>
            reconnectAttempts (failed_attempt l s) = Suc (reconnectAttempts s) \<and>
            give_ups (failed_attempt l s) = give_ups s \<and>
            error_boxes (failed_attempt l s) = error_boxes s"
    using close_event(1) [OF k, of l] r by (simp add: fa del: step.simps)
  have c2: "5 \<le> reconnectAttempts s \<longrightarrow>
            timers (failed_attempt l s) = rest \<and>
            reconnectAttempts (failed_attempt l s) = reconnectAttempts s \<and>
            give_ups (failed_attempt l s) = Suc (give_ups s) \<and>
            error_boxes (failed_attempt l s) = Suc (error_boxes s)"
    using close_event(2) [OF k, of l] r by (simp add: fa del: step.simps)
  have sk: "sockets (step l ?s2 (WsClosed ?n)) = sockets s @ [\<lparr>sock_url = u, ready = CLOSED\<rparr>] \<and>
      \<not> isConnected (step l ?s2 (WsClosed ?n))"
    by (simp add: sock_def nth_opt_def set_ready_def on_close_def showConnectionError_def
          emit_def Let_def)
  from c1 c2 sk assms(2) show ?thesis
    by (simp add: fa del: step.simps)
qed

text \<open>The same without assuming that the other socket objects are closed.\<close>

lemma disconnect_counts:
  "length (sockets (disconnectFromContainer s)) = length (sockets s) \<and>
   timers (disconnectFromContainer s) = timers s \<and>
   reconnectAttempts (disconnectFromContainer s) = reconnectAttempts s \<and>
   give_ups (disconnectFromContainer s) = give_ups s \<and>
   error_boxes (disconnectFromContainer s) = error_boxes s"
  by (auto simp: disconnectFromContainer_def set_ready_def emit_def give_ups_def error_boxes_def
        split: option.splits)

lemma timer_counts:
  assumes "timers s = u # rest" "valid_url l u"
  shows "sock (step l s TimerFires) (length (sockets s)) = Some \<lparr>sock_url = u, ready = CONNECTING\<rparr> \<and>
         timers (step l s TimerFires) = rest \<and>
         reconnectAttempts (step l s TimerFires) = reconnectAttempts s \<and>
         give_ups (step l s TimerFires) = give_ups s \<and>
         error_boxes (step l s TimerFires) = error_boxes s"
  using assms disconnect_counts [of "s\<lparr>timers := rest\<rparr>"]
  by (simp add: connectToContainerWebSocket_def Let_def emit_def sock_def nth_opt_def
        give_ups_def error_boxes_def nth_append)

lemma error_counts:
  assumes "sock s n = Some k" "ready k \<noteq> CLOSED"
  shows "sock (step l s (WsError n)) n = Some k \<and>
         timers (step l s (WsError n)) = timers s \<and>
         reconnectAttempts (step l s (WsError n)) = reconnectAttempts s \<and>
         give_ups (step l s (WsError n)) = give_ups s \<and>
         error_boxes (step l s (WsError n)) = error_boxes s"
  using assms by (simp add: on_error_def emit_def sock_def give_ups_def error_boxes_def)

lemma failed_attempt_counts:
  assumes "timers s = u # rest" "valid_url l u"
  shows "(reconnectAttempts s < 5 \<longrightarrow>
            timers (failed_attempt l s) = rest @ [u] \<and>
            reconnectAttempts (failed_attempt l s) = Suc (reconnectAttempts s) \<and>
            give_ups (failed_attempt l s) = give_ups s \<and>
            error_boxes (failed_attempt l s) = error_boxes s) \<and>
         (5 \<le> reconnectAttempts s \<longrightarrow>
            timers (failed_attempt l s) = rest \<and>
            reconnectAttempts (failed_attempt l s) = reconnectAttempts s \<and>
            give_ups (failed_attempt l s) = Suc (give_ups s) \<and>
            error_boxes (failed_attempt l s) = Suc (error_boxes s))"
proof -
  let ?n = "length (sockets s)"
  let ?k = "\<lparr>sock_url = u, ready = CONNECTING\<rparr>"
  let ?s1 = "step l s TimerFires"
  let ?s2 = "step l ?s1 (WsError ?n)"
  have t: "sock ?s1 ?n = Some ?k" "timers ?s1 = rest"
    "reconnectAttempts ?s1 = reconnectAttempts s" "give_ups ?s1 = give_ups s"
    "error_boxes ?s1 = error_boxes s"
    using timer_counts [OF assms] by simp_all
  have r: "ready ?k \<noteq> CLOSED" by simp
  have e: "sock ?s2 ?n = Some ?k" "timers ?s2 = rest"
    "reconnectAttempts ?s2 = reconnectAttempts s" "give_ups ?s2 = give_ups s"
    "error_boxes ?s2 = error_boxes s"
    using error_counts [OF t(1) r, of l] t(2-) by simp_all
  have fa: "failed_attempt l s = step l ?s2 (WsClosed ?n)"
    by (simp only: failed_attempt_def run_def foldl.simps)
  show ?thesis
    using close_event(1) [OF e(1) r, of l] close_event(2) [OF e(1) r, of l] e(2-)
    by (simp add: fa del: step.simps)
qed

text \<open>
  An outage that starts with the counter at 0, whatever timers are pending and whichever
  other socket objects are alive.
\<close>

lemma outage_counts:
  assumes "sock s c = Some k" "ready k \<noteq> CLOSED" "reconnectAttempts s = 0"
    "list_all (valid_url l) (sock_url k # timers s)" "j < 5"
  shows "timers (outage l s c j) = rotate j (timers s @ [sock_url k]) \<and>
         reconnectAttempts (outage l s c j) = Suc j \<and>
         give_ups (outage l s c j) = give_ups s \<and>
         error_boxes (outage l s c j) = error_boxes s"
  using assms(5)
proof (induction j)
  case 0
  then show ?case
    using close_event(1) [OF assms(1,2), of l] assms(3) by (simp add: outage_def del: step.simps)
next
  case (Suc j)
  let ?o = "outage l s c j"
  from Suc have ih: "timers ?o = rotate j (timers s @ [sock_url k])"
    "reconnectAttempts ?o = Suc j" "give_ups ?o = give_ups s" "error_boxes ?o = error_boxes s"
    and j: "Suc j < 5"
    by simp_all
  have ne: "rotate j (timers s @ [sock_url k]) \<noteq> []" by simp
  then obtain u rest where ur: "rotate j (timers s @ [sock_url k]) = u # rest"
    by (cases "rotate j (timers s @ [sock_url k])") auto
  have "u \<in> set (rotate j (timers s @ [sock_url k]))" using ur by simp
  then have v: "valid_url l u" using assms(4) by (auto simp: list_all_iff)
  have t: "timers ?o = u # rest" using ih(1) ur by simp
  have "rotate (Suc j) (timers s @ [sock_url k]) = rest @ [u]"
    using ur by simp
  moreover have "outage l s c (Suc j) = failed_attempt l ?o"
    by (simp add: outage_def)
  ultimately show ?case
    using failed_attempt_counts [OF t v] ih(2-) j by simp
qed

lemma outage_counts_end:
  assumes "sock s c = Some k" "ready k \<noteq> CLOSED" "reconnectAttempts s = 0"
    "list_all (valid_url l) (sock_url k # timers s)"
  shows "timers (outage l s c 5) = tl (rotate 4 (timers s @ [sock_url k])) \<and>
         reconnectAttempts (outage l s c 5) = 5 \<and>
         give_ups (outage l s c 5) = Suc (give_ups s) \<and>
         error_boxes (outage l s c 5) = Suc (error_boxes s)"
proof -
  let ?o = "outage l s c 4"
  have ih: "timers ?o = rotate 4 (timers s @ [sock_url k])"
    "reconnectAttempts ?o = 5" "give_ups ?o = give_ups s" "error_boxes ?o = error_boxes s"
    using outage_counts [OF assms, of 4] by simp_all
  have ne: "rotate 4 (timers s @ [sock_url k]) \<noteq> []" by simp
  then obtain u rest where ur: "rotate 4 (timers s @ [sock_url k]) = u # rest"
    by (cases "rotate 4 (timers s @ [sock_url k])") auto
  have "u \<in> set (rotate 4 (timers s @ [sock_url k]))" using ur by simp
  then have v: "valid_url l u" using assms(4) by (auto simp: list_all_iff)
  have t: "timers ?o = u # rest" using ih(1) ur by simp
  have "outage l s c 5 = failed_attempt l ?o"
    by (simp add: outage_def eval_nat_numeral)
  then show ?thesis
    using failed_attempt_counts [OF t v] ih(2-) ur by simp
qed

lemma failed_attempt_retry:
  assumes "waiting s u n" "valid_url l u" "n < 5"
  shows "waiting (failed_attempt l s) u (Suc n) \<and> give_ups (failed_attempt l s) = give_ups s \<and>
         length (sockets (failed_attempt l s)) = Suc (length (sockets s))"
  using failed_attempt_any [of s u "[]" l] assms by (simp add: waiting_def)

lemma failed_attempt_last:
  assumes "waiting s u n" "valid_url l u" "5 \<le> n"
  shows "idle (failed_attempt l s) \<and> give_ups (failed_attempt l s) = Suc (give_ups s)"
  using failed_attempt_any [of s u "[]" l] assms by (simp add: waiting_def idle_def)

lemma failed_attempts_retry:
  assumes "waiting s u n" "valid_url l u" "n + k \<le> 5"
  shows "waiting ((failed_attempt l ^^ k) s) u (n + k) \<and>
         give_ups ((failed_attempt l ^^ k) s) = give_ups s \<and>
         length (sockets ((failed_attempt l ^^ k) s)) = length (sockets s) + k"
  using assms
proof (induction k)
  case 0
  then show ?case by simp
next
  case (Suc k)
  then have "waiting ((failed_attempt l ^^ k) s) u (n + k)"
    and "give_ups ((failed_attempt l ^^ k) s) = give_ups s"
    and "length (sockets ((failed_attempt l ^^ k) s)) = length (sockets s) + k" by simp_all
  moreover have "n + k < 5" using Suc.prems by simp
  ultimately show ?case
    using failed_attempt_retry [of "(failed_attempt l ^^ k) s" u "n + k" l] Suc.prems(2)
    by simp
qed

text \<open>During an outage that starts from a connected client.\<close>

lemma outage_retry:
  assumes "connected s c u" "valid_url l u" "k < 5"
  shows "waiting (outage l s c k) u (Suc k) \<and> give_ups (outage l s c k) = give_ups s \<and>
         length (sockets (outage l s c k)) = length (sockets s) + k"
  using drop_waiting [OF assms(1), of l]
    failed_attempts_retry [of "step l s (WsClosed c)" u 1 l k] assms(2,3)
  by (simp add: outage_def)

lemma outage_end:
  assumes "connected s c u" "valid_url l u"
  shows "idle (outage l s c 5) \<and> give_ups (outage l s c 5) = Suc (give_ups s)"
proof -
  have "outage l s c 5 = failed_attempt l (outage l s c 4)"
    by (simp add: outage_def eval_nat_numeral)
  moreover have "waiting (outage l s c 4) u 5 \<and> give_ups (outage l s c 4) = give_ups s"
    using outage_retry [OF assms, of 4] by simp
  ultimately show ?thesis
    using failed_attempt_last [of "outage l s c 4" u 5 l] assms(2) by simp
qed

lemma error_boxes_online: "error_boxes online = 0"
  by (simp add: online_eq error_boxes_def)

lemma idle_step:
  assumes "idle s" "\<not> discovery ev"
  shows "idle (step l s ev) \<and> sockets (step l s ev) = sockets s"
proof -
  have closed: "ready (sockets s ! c) = CLOSED" if "c < length (sockets s)" for c
    using assms(1) that by (simp add: idle_def list_all_length)
  show ?thesis
    using assms closed
    by (cases ev) (auto simp: idle_def client_defs split: option.splits)
qed

lemma idle_run:
  assumes "idle s" "list_all (\<lambda>ev. \<not> discovery ev) evs"
  shows "idle (run l s evs) \<and> sockets (run l s evs) = sockets s"
  using assms
proof (induction evs arbitrary: s)
  case Nil
  then show ?case by (simp add: run_def)
next
  case (Cons ev evs)
  then have "idle (step l s ev)" and "sockets (step l s ev) = sockets s"
    using idle_step [of s ev l] by simp_all
  with Cons.IH [of "step l s ev"] Cons.prems(2) show ?case
    by (simp add: run_def)
qed

lemma give_up_only_on_close:
  "give_ups (step l s ev) \<noteq> give_ups s \<Longrightarrow>
     (\<exists>c. ev = WsClosed c) \<and> MAX_RECONNECT_ATTEMPTS \<le> reconnectAttempts s"
proof -
  assume a: "give_ups (step l s ev) \<noteq> give_ups s"
  obtain es where es: "trace (step l s ev) = trace s @ es"
    and n: "count_list es (Console Log ''Max reconnect attempts reached'') =
       (case ev of
          WsClosed c \<Rightarrow>
            (case sock s c of
               Some k \<Rightarrow> if ready k \<noteq> CLOSED \<and> MAX_RECONNECT_ATTEMPTS \<le> reconnectAttempts s
                          then 1 else 0
             | None \<Rightarrow> 0)
        | _ \<Rightarrow> 0)"
    using step_effects [of l s ev] by blast
  from a es have "count_list es (Console Log ''Max reconnect attempts reached'') \<noteq> 0"
    by (simp add: give_ups_def)
  with n show ?thesis
    by (cases ev) (auto split: option.splits if_splits)
qed

lemma online_connected: "connected online 0 ''ws://10.0.0.2:8765''"
  by (simp add: online_eq connected_def sock_def nth_opt_def)

lemma give_ups_online: "give_ups online = 0"
  by (simp add: online_eq give_ups_def)

lemma sockets_online: "length (sockets online) = 1"
  by (simp add: online_eq)

subsection \<open>Sending\<close>

lemma run_trace_prefix: "\<exists>es. trace (run l s evs) = trace s @ es"
proof (induction evs arbitrary: s)
  case Nil
  then show ?case by (simp add: run_def)
next
  case (Cons ev evs)
  obtain es where "trace (step l s ev) = trace s @ es"
    using step_effects [of l s ev] by blast
  moreover obtain es' where "trace (run l (step l s ev) evs) = trace (step l s ev) @ es'"
    using Cons.IH [of "step l s ev"] by blast
  ultimately show ?case by (simp add: run_def)
qed

lemma sends_since:
  assumes "trace s' = trace s @ es"
  shows "sends (trace s') = sends (trace s) @ sends (since s s')"
  using assms by (simp add: since_def)

lemma to_backend_closed:
  assumes "\<not> wsClient_open s"
  shows "step l s (ToBackend d) =
     emit (Console Log ''Sending to backend:''
           # Console Warn ''Cannot send message: WebSocket not connected''
           # (if reconnectAttempts s = 0
              then [ErrorBox ''Connection Error''
                ''Failed to connect to the container. Please check that the container is running and try again.'']
              else [])) s"
  using assms
  by (auto simp: to_backend_def Let_def emit_def wsClient_open_def sock_def nth_opt_def
        showConnectionError_def split: option.splits)

subsection \<open>Discovery leaves the configuration alone until it saves it\<close>

lemma emit_fields [simp]:
  "containerConfig (emit es s) = containerConfig s"
  "configFile (emit es s) = configFile s"
  by (simp_all add: emit_def)

lemma listContainers_frame:
  "fst (listContainers e s) = fst (listContainers e s') \<and>
   containerConfig (snd (listContainers e s)) = containerConfig s \<and>
   configFile (snd (listContainers e s)) = configFile s"
  by (simp add: listContainers_def emit_def split: option.splits)








subsection \<open>Prompts and handovers\<close>









subsection \<open>What a discovery does\<close>



lemma prompts_append [simp]: "prompts (xs @ ys) = prompts xs @ prompts ys"
  by (simp add: prompts_def)





lemma client_emit [simp]:
  "sockets (emit es s) = sockets s" "wsClient (emit es s) = wsClient s"
  by (simp_all add: emit_def)

lemma listContainers_client:
  "sockets (snd (listContainers e s)) = sockets s \<and> wsClient (snd (listContainers e s)) = wsClient s"
  by (simp add: listContainers_def split: option.splits)

lemma startContainer_client:
  "sockets (snd (startContainer e i s)) = sockets s \<and> wsClient (snd (startContainer e i s)) = wsClient s"
  by (simp add: startContainer_def split: option.splits)

lemma connectToContainer_client:
  "sockets (snd (connectToContainer e i s)) = sockets s \<and>
   wsClient (snd (connectToContainer e i s)) = wsClient s"
  by (simp add: connectToContainer_def getContainerIP_def saveConfig_def emit_def Let_def
        split: option.splits)













subsection \<open>The counter between an open and the next close\<close>

lemma counter_emit [simp]:
  "reconnectAttempts (emit es s) = reconnectAttempts s" "timers (emit es s) = timers s"
  by (simp_all add: emit_def)

lemma fresh_cong:
  assumes "fresh c u l s" "reconnectAttempts s' = reconnectAttempts s" "sockets s' = sockets s"
    "timers s' = timers s"
  shows "fresh c u l s'"
  using assms by (simp add: fresh_def)

lemma listContainers_counter:
  "reconnectAttempts (snd (listContainers e s)) = reconnectAttempts s \<and>
   timers (snd (listContainers e s)) = timers s"
  by (simp add: listContainers_def split: option.splits)

lemma startContainer_counter:
  "reconnectAttempts (snd (startContainer e i s)) = reconnectAttempts s \<and>
   timers (snd (startContainer e i s)) = timers s"
  by (simp add: startContainer_def split: option.splits)

lemma connectToContainer_counter:
  "reconnectAttempts (snd (connectToContainer e i s)) = reconnectAttempts s \<and>
   timers (snd (connectToContainer e i s)) = timers s"
  by (simp add: connectToContainer_def getContainerIP_def saveConfig_def emit_def Let_def
        split: option.splits)

lemma ci_dialog_counter:
  "reconnectAttempts (snd (ci_showContainerSelectionDialog e s)) = reconnectAttempts s \<and>
   timers (snd (ci_showContainerSelectionDialog e s)) = timers s \<and>
   sockets (snd (ci_showContainerSelectionDialog e s)) = sockets s"
proof -
  obtain cs s1 where g: "listContainers e s = (cs, s1)"
    by (cases "listContainers e s")
  have k1: "reconnectAttempts s1 = reconnectAttempts s" "timers s1 = timers s" "sockets s1 = sockets s"
    using listContainers_counter [of e s] listContainers_client [of e s] g by simp_all
  obtain r s3 where st: "startContainer e ''exo:latest'' (emit [NoContainersDialog] s1) = (r, s3)"
    by (cases "startContainer e ''exo:latest'' (emit [NoContainersDialog] s1)")
  have k3: "reconnectAttempts s3 = reconnectAttempts s" "timers s3 = timers s" "sockets s3 = sockets s"
    using startContainer_counter [of e "''exo:latest''" "emit [NoContainersDialog] s1"]
      startContainer_client [of e "''exo:latest''" "emit [NoContainersDialog] s1"] st k1
    by simp_all
  show ?thesis
    using k1 k3
    by (cases r) (simp_all add: ci_showContainerSelectionDialog_def g st Let_def)
qed

lemma fresh_disconnect:
  assumes "fresh c u l s"
  shows "fresh c u l (disconnectFromContainer s)"
  using assms
  by (auto simp: fresh_def disconnectFromContainer_def wsClient_open_def set_ready_def sock_def
        nth_opt_def emit_def nth_list_update split: option.splits)

lemma fresh_connectWs:
  assumes "fresh c u l s"
  shows "fresh c u l (snd (connectToContainerWebSocket v u' s))"
  using fresh_disconnect [OF assms]
  by (auto simp: fresh_def connectToContainerWebSocket_def Let_def emit_def sock_def nth_opt_def
        nth_append)

lemma fresh_showDialog:
  assumes "fresh c u l s"
  shows "fresh c u l (showContainerSelectionDialog v e s)"
proof -
  obtain i s1 where g: "ci_showContainerSelectionDialog e s = (i, s1)"
    by (cases "ci_showContainerSelectionDialog e s")
  have f1: "fresh c u l s1"
    using ci_dialog_counter [of e s] g by (intro fresh_cong [OF assms]) simp_all
  obtain r s2 where h: "connectToContainer e (the i) s1 = (r, s2)"
    by (cases "connectToContainer e (the i) s1")
  have f2: "fresh c u l s2"
    using connectToContainer_counter [of e "the i" s1] connectToContainer_client [of e "the i" s1] h
    by (intro fresh_cong [OF f1]) simp_all
  have f3: "fresh c u l (showConnectionError m (emit [Console Error ''Error connecting to container:''] s2))"
    for m
    by (rule fresh_cong [OF f2]) (simp_all add: showConnectionError_def)
  show ?thesis
    using f1 f3 fresh_connectWs [OF f2]
    by (simp add: showContainerSelectionDialog_def g h split: sum.splits)
qed

lemma fresh_check:
  assumes "fresh c u l s"
  shows "fresh c u l (checkContainerConnection v e s)"
proof -
  let ?last = "lastContainer (containerConfig s)"
  obtain cs s1 where g: "listContainers e s = (cs, s1)"
    by (cases "listContainers e s")
  have f1: "fresh c u l s1"
    using listContainers_counter [of e s] listContainers_client [of e s] g
    by (intro fresh_cong [OF assms]) simp_all
  have k1: "containerConfig s1 = containerConfig s"
    using listContainers_frame [of e s s] g by simp
  obtain r s2 where h: "connectToContainer e (the ?last) s1 = (r, s2)"
    by (cases "connectToContainer e (the ?last) s1")
  have f2: "fresh c u l s2"
    using connectToContainer_counter [of e "the ?last" s1]
      connectToContainer_client [of e "the ?last" s1] h
    by (intro fresh_cong [OF f1]) simp_all
  have f3: "fresh c u l (emit [Console Error ''Error auto-connecting to container:''] s2)"
    by (rule fresh_cong [OF f2]) simp_all
  have f0: "fresh c u l (showDockerNotInstalledError s)"
    by (rule fresh_cong [OF assms]) (simp_all add: showDockerNotInstalledError_def)
  show ?thesis
    using f0 fresh_showDialog [OF assms] fresh_showDialog [OF f1] fresh_showDialog [OF f3]
      fresh_connectWs [OF f2]
    by (simp add: checkContainerConnection_def g k1 h split: sum.splits)
qed

lemma fresh_step:
  assumes "fresh c u l s" "\<not> closing ev"
  shows "fresh c u l (step l s ev)"
proof (cases ev)
  case (WsOpened c')
  then show ?thesis
    using assms(1)
    by (auto simp: fresh_def on_open_def set_ready_def sock_def nth_opt_def emit_def Let_def
          nth_list_update split: option.splits)
next
  case (WsMessage c' m)
  then show ?thesis
    using assms(1)
    by (auto simp: fresh_def on_message_def sock_def nth_opt_def emit_def Let_def
          split: option.splits)
next
  case (WsError c')
  then show ?thesis
    using assms(1)
    by (auto simp: fresh_def on_error_def sock_def nth_opt_def emit_def split: option.splits)
next
  case (WsClosed c')
  then show ?thesis using assms(2) by simp
next
  case TimerFires
  show ?thesis
  proof (cases "timers s")
    case Nil
    then show ?thesis using TimerFires assms(1) by simp
  next
    case (Cons url rest)
    have "fresh c u l (s\<lparr>timers := rest\<rparr>)"
      using assms(1) Cons by (simp add: fresh_def)
    from fresh_connectWs [OF this] show ?thesis
      using TimerFires Cons by simp
  qed
next
  case (ToBackend d)
  have "fresh c u l (to_backend (JSON_stringify l) d s)"
    by (rule fresh_cong [OF assms(1)])
      (simp_all add: to_backend_def showConnectionError_def Let_def)
  then show ?thesis using ToBackend by simp
next
  case (ConnectToContainer e)
  then show ?thesis using fresh_showDialog [OF assms(1)] by simp
next
  case (WindowReady e)
  then show ?thesis using fresh_check [OF assms(1)] by simp
next
  case WindowClosed
  have "fresh c u l ((disconnectFromContainer s)\<lparr>mainWindow := False\<rparr>)"
    by (rule fresh_cong [OF fresh_disconnect [OF assms(1)]]) simp_all
  then show ?thesis using WindowClosed by simp
next
  case BeforeQuit
  then show ?thesis using fresh_disconnect [OF assms(1)] by simp
qed

lemma fresh_run:
  assumes "fresh c u l s" "list_all (\<lambda>ev. \<not> closing ev) evs"
  shows "fresh c u l (run l s evs)"
  using assms
proof (induction evs arbitrary: s)
  case Nil
  then show ?case by (simp add: run_def)
next
  case (Cons ev evs)
  then have "fresh c u l (step l s ev)"
    using fresh_step [of c u l s ev] by simp
  with Cons.IH [of "step l s ev"] Cons.prems(2) show ?case
    by (simp add: run_def)
qed

lemma fresh_open:
  assumes "sock s c = Some k" "ready k = CONNECTING" "list_all (valid_url l) (sock_url k # timers s)"
  shows "fresh c (sock_url k) l (step l s (WsOpened c))"
  using assms
  by (auto simp: fresh_def on_open_def set_ready_def sock_def nth_opt_def emit_def Let_def
        split: if_splits)

lemma give_ups_run:
  assumes "list_all (\<lambda>ev. \<not> closing ev) evs"
  shows "give_ups (run l s evs) = give_ups s"
  using assms
proof (induction evs arbitrary: s)
  case Nil
  then show ?case by (simp add: run_def)
next
  case (Cons ev evs)
  have "give_ups (step l s ev) = give_ups s"
    using give_up_only_on_close [of l s ev] Cons.prems by (cases ev) auto
  with Cons.IH [of "step l s ev"] Cons.prems show ?case
    by (simp add: run_def)
qed

lemma fresh_outage:
  assumes "fresh c u l s"
  shows "(\<forall>j<5. timers (outage l s c j) = rotate j (timers s @ [u]) \<and>
                 reconnectAttempts (outage l s c j) = j + 1 \<and>
                 give_ups (outage l s c j) = give_ups s \<and>
                 error_boxes (outage l s c j) = error_boxes s) \<and>
         timers (outage l s c 5) = tl (rotate 4 (timers s @ [u])) \<and>
         give_ups (outage l s c 5) = give_ups s + 1 \<and>
         error_boxes (outage l s c 5) = error_boxes s + 1"
proof -
  obtain k where k: "sock s c = Some k" "sock_url k = u" "ready k \<noteq> CLOSED"
    and z: "reconnectAttempts s = 0" and v: "list_all (valid_url l) (sock_url k # timers s)"
    using assms by (auto simp: fresh_def sock_def nth_opt_def)
  show ?thesis
    using outage_counts [OF k(1,3) z v] outage_counts_end [OF k(1,3) z v] k(2) by simp
qed


subsection \<open>Evaluating the discovery scenarios\<close>

















lemma replaced_eq:
  "replaced = online\<lparr>wsClient := Some 1,
     sockets := [\<lparr>sock_url = ''ws://10.0.0.2:8765'', ready = CLOSED\<rparr>,
                 \<lparr>sock_url = ''ws://10.0.0.2:8765'', ready = OPEN\<rparr>],
     isConnected := False, reconnectAttempts := 1, timers := [''ws://10.0.0.2:8765''],
     trace := trace online @
       [SelectDialog [''aaa''],
        WriteFile \<lparr>containerHost = ''10.0.0.2'', containerPort = 8080,
           websocketPort = 8765, autoConnect = True, lastContainer = Some ''aaa''\<rparr>,
        WsClose 0,
        Console Log ''Connecting to WebSocket at ws://10.0.0.2:8765...'',
        WsNew 1 ''ws://10.0.0.2:8765'',
        Console Log ''Connected to container WebSocket'',
        ConnectionStatus True,
        Console Log ''WebSocket connection closed'', ConnectionStatus False,
        Console Log ''Reconnecting (attempt 1/5)...'',
        SetTimeout ''ws://10.0.0.2:8765'' 2000]\<rparr>"
  by (simp add: replaced_def online_eq run_def lib0_def env1_def discovery_defs client_defs
        MAX_RECONNECT_ATTEMPTS_def RECONNECT_INTERVAL_def show_nat.simps digit_char_def)

lemma reopened_counter:
  "reconnectAttempts (run lib0 online [ConnectToContainer env1, WsOpened 1]) = 0"
  by (simp add: online_eq run_def lib0_def env1_def discovery_defs client_defs
        show_nat.simps digit_char_def)

lemma replaced_drop:
  "timers (step lib0 replaced (WsClosed 1)) = [''ws://10.0.0.2:8765'', ''ws://10.0.0.2:8765''] \<and>
   reconnectAttempts (step lib0 replaced (WsClosed 1)) = 2 \<and>
   give_ups (step lib0 replaced (WsClosed 1)) = 0 \<and>
   list_all (\<lambda>k. ready k = CLOSED) (sockets (step lib0 replaced (WsClosed 1)))"
  by (simp add: replaced_eq online_eq give_ups_def client_defs MAX_RECONNECT_ATTEMPTS_def)

lemma reselected_facts:
  "sock reselected 1 = Some \<lparr>sock_url = ''ws://10.0.0.2:8765'', ready = OPEN\<rparr>"
  "reconnectAttempts reselected = 0" "timers reselected = [''ws://10.0.0.2:8765'']"
  "isConnected reselected" "give_ups reselected = 0" "error_boxes reselected = 0"
  by (simp_all add: reselected_def dropped_eq online_eq run_def lib0_def env1_def discovery_defs
        client_defs give_ups_def error_boxes_def show_nat.simps digit_char_def)

section \<open>The claims\<close>

subsection \<open>C1: sending while the socket is not open\<close>

text \<open>
  C1, as the code has it: an envelope that \<^verbatim>\<open>to-backend\<close> receives while the current socket
  is not open is not buffered. The handler logs it, warns that it cannot be sent, shows
  the connection error box when the attempt counter is 0, and changes nothing else. It is
  never delivered later: in every continuation, the frames handed to a socket are exactly
  the envelopes that arrive while the socket is open, each at the moment of its call, and
  the \<^verbatim>\<open>open\<close> handler hands nothing to the socket.
\<close>

theorem unsent_envelope_is_discarded:
  assumes "\<not> wsClient_open s"
  shows "step l s (ToBackend d) =
           emit (Console Log ''Sending to backend:''
                 # Console Warn ''Cannot send message: WebSocket not connected''
                 # (if reconnectAttempts s = 0
                    then [ErrorBox ''Connection Error''
                      ''Failed to connect to the container. Please check that the container is running and try again.'']
                    else [])) s \<and>
         (\<forall>evs. sends (since s (run l (step l s (ToBackend d)) evs)) =
                 sent_while_open l (step l s (ToBackend d)) evs) \<and>
         (\<forall>s' c. sends (since s' (step l s' (WsOpened c))) = [])"
proof -
  let ?s1 = "step l s (ToBackend d)"
  have a: "?s1 = emit (Console Log ''Sending to backend:''
                 # Console Warn ''Cannot send message: WebSocket not connected''
                 # (if reconnectAttempts s = 0
                    then [ErrorBox ''Connection Error''
                      ''Failed to connect to the container. Please check that the container is running and try again.'']
                    else [])) s"
    by (rule to_backend_closed [OF assms])
  have s1: "sends (trace ?s1) = sends (trace s)"
    by (subst a) simp
  have b: "sends (since s (run l ?s1 evs)) = sent_while_open l ?s1 evs" for evs
  proof -
    obtain es where "trace (run l ?s1 evs) = trace ?s1 @ es"
      using run_trace_prefix [of l ?s1 evs] by blast
    moreover obtain es1 where "trace ?s1 = trace s @ es1"
      using step_effects [of l s "ToBackend d"] by blast
    ultimately have "trace (run l ?s1 evs) = trace s @ (es1 @ es)" by simp
    from sends_since [OF this]
    have "sends (trace (run l ?s1 evs)) = sends (trace s) @ sends (since s (run l ?s1 evs))" .
    moreover have "sends (trace (run l ?s1 evs)) = sends (trace s) @ sent_while_open l ?s1 evs"
      using sends_run [of l ?s1 evs] s1 by simp
    ultimately show ?thesis by simp
  qed
  have c: "sends (since s' (step l s' (WsOpened c))) = []" for s' :: "'a main" and c
  proof -
    obtain es where e: "trace (step l s' (WsOpened c)) = trace s' @ es" and "sends es = []"
      using step_effects [of l s' "WsOpened c"] by auto
    then show ?thesis by (simp add: since_def)
  qed
  from a b c show ?thesis by blast
qed

text \<open>The theorem before the first connection: an envelope, then the connection opens.\<close>

theorem unsent_envelope_is_discarded_witness:
  "since start0 (step lib0 start0 (ToBackend ''hi'')) =
     [Console Log ''Sending to backend:'',
      Console Warn ''Cannot send message: WebSocket not connected'',
      ErrorBox ''Connection Error''
        ''Failed to connect to the container. Please check that the container is running and try again.''] \<and>
   sends (since start0 (run lib0 (step lib0 start0 (ToBackend ''hi''))
                         [ConnectToContainer env1, WsOpened 0])) = []"
proof -
  have n: "\<not> wsClient_open start0"
    by (simp add: start0_def initial_def wsClient_open_def)
  have r: "reconnectAttempts start0 = 0"
    by (simp add: start0_def initial_def)
  from unsent_envelope_is_discarded [OF n, of lib0 "''hi''"]
  have a: "step lib0 start0 (ToBackend ''hi'') =
      emit [Console Log ''Sending to backend:'',
            Console Warn ''Cannot send message: WebSocket not connected'',
            ErrorBox ''Connection Error''
              ''Failed to connect to the container. Please check that the container is running and try again.'']
        start0"
    and b: "sends (since start0 (run lib0 (step lib0 start0 (ToBackend ''hi''))
                         [ConnectToContainer env1, WsOpened 0])) =
            sent_while_open lib0 (step lib0 start0 (ToBackend ''hi''))
              [ConnectToContainer env1, WsOpened 0]"
    using r by (simp del: step.simps, blast)
  have c1: "since start0 (step lib0 start0 (ToBackend ''hi'')) =
     [Console Log ''Sending to backend:'',
      Console Warn ''Cannot send message: WebSocket not connected'',
      ErrorBox ''Connection Error''
        ''Failed to connect to the container. Please check that the container is running and try again.'']"
    by (simp only: a) (simp add: since_def)
  have "sent_while_open lib0 (step lib0 start0 (ToBackend ''hi''))
          [ConnectToContainer env1, WsOpened 0] = []"
    by (simp del: step.simps)
  with b have c2: "sends (since start0 (run lib0 (step lib0 start0 (ToBackend ''hi''))
                         [ConnectToContainer env1, WsOpened 0])) = []"
    by (simp only:)
  from c1 c2 show ?thesis by (rule conjI)
qed

text \<open>
  C1 as the specification states it (the envelope is delivered right after the next
  \<^verbatim>\<open>open\<close> event) fails: an envelope is sent before the first connection, the connection
  is made and opens, and no frame has been handed to the socket.
\<close>

theorem no_buffering_counterexample:
  "sends (trace (run lib0 start0 [ToBackend ''hi'', ConnectToContainer env1, WsOpened 0])) = []"
proof -
  have "\<not> wsClient_open start0"
    by (simp add: start0_def initial_def wsClient_open_def)
  moreover have "sends (trace start0) = []"
    by (simp add: start0_def initial_def)
  ultimately show ?thesis
    using sends_run [of lib0 start0 "[ToBackend ''hi'', ConnectToContainer env1, WsOpened 0]"]
    by (simp del: step.simps)
qed

subsection \<open>C2: the retry budget\<close>

text \<open>
  C2, as the code has it. Start from a connected client: a socket is open and the counter
  of attempts is 0, as the \<^verbatim>\<open>open\<close> handler leaves it; \<^verbatim>\<open>new WebSocket\<close> accepts the URL of
  that socket and of every pending timer. When its connection drops and every automatic
  reconnection attempt fails, with no other event in between, a new timer is set after
  the drop and after each of the first four failed attempts (so one more timer is pending
  than before the drop: the pending ones, served oldest first), and the client gives up
  exactly when the fifth attempt fails (\<^verbatim>\<open>MAX_RECONNECT_ATTEMPTS\<close> = 5; this is the sixth
  \<^verbatim>\<open>close\<close> event in a row, counting the drop): it logs that the attempts are used up and
  shows the connection error once, and sets no timer. If moreover no timer was pending
  and no other socket object was alive when the connection dropped, then one timer is
  pending between the attempts and, from the moment the client has given up, as long as
  the user does not start a new discovery, no timer is pending, no socket is created and
  the client stays disconnected. In every state, the \<^verbatim>\<open>close\<close> handler is the only place
  where the client gives up, it does so only when the counter has reached 5, and the
  \<^verbatim>\<open>close\<close> event of a live socket at that count always does: the log line, the error box
  and no timer.
\<close>

theorem retry_budget_is_five:
  assumes "sock s c = Some k" "ready k = OPEN" "reconnectAttempts s = 0"
    "list_all (valid_url l) (sock_url k # timers s)"
  shows "(\<forall>j<5. timers (outage l s c j) = rotate j (timers s @ [sock_url k]) \<and>
                 reconnectAttempts (outage l s c j) = j + 1 \<and>
                 give_ups (outage l s c j) = give_ups s \<and>
                 error_boxes (outage l s c j) = error_boxes s) \<and>
         timers (outage l s c 5) = tl (rotate 4 (timers s @ [sock_url k])) \<and>
         give_ups (outage l s c 5) = give_ups s + 1 \<and>
         error_boxes (outage l s c 5) = error_boxes s + 1 \<and>
         (timers s = [] \<and>
          list_all (\<lambda>k. ready k = CLOSED) (take c (sockets s) @ drop (Suc c) (sockets s)) \<longrightarrow>
            (\<forall>j<5. timers (outage l s c j) = [sock_url k]) \<and>
            (\<forall>evs. list_all (\<lambda>ev. \<not> discovery ev) evs \<longrightarrow>
               timers (run l (outage l s c 5) evs) = [] \<and>
               \<not> isConnected (run l (outage l s c 5) evs) \<and>
               sockets (run l (outage l s c 5) evs) = sockets (outage l s c 5))) \<and>
         (\<forall>s' ev. give_ups (step l s' ev) \<noteq> give_ups s' \<longrightarrow>
            (\<exists>c'. ev = WsClosed c') \<and> 5 \<le> reconnectAttempts s') \<and>
         (\<forall>s' c' k'. sock s' c' = Some k' \<and> ready k' \<noteq> CLOSED \<and> 5 \<le> reconnectAttempts s' \<longrightarrow>
            timers (step l s' (WsClosed c')) = timers s' \<and>
            give_ups (step l s' (WsClosed c')) = give_ups s' + 1 \<and>
            error_boxes (step l s' (WsClosed c')) = error_boxes s' + 1)"
proof -
  let ?u = "sock_url k"
  have f: "fresh c ?u l s"
    using assms by (simp add: fresh_def sock_def nth_opt_def split: if_splits)
  have a: "(\<forall>j<5. timers (outage l s c j) = rotate j (timers s @ [?u]) \<and>
                 reconnectAttempts (outage l s c j) = j + 1 \<and>
                 give_ups (outage l s c j) = give_ups s \<and>
                 error_boxes (outage l s c j) = error_boxes s) \<and>
         timers (outage l s c 5) = tl (rotate 4 (timers s @ [?u])) \<and>
         give_ups (outage l s c 5) = give_ups s + 1 \<and>
         error_boxes (outage l s c 5) = error_boxes s + 1"
    by (rule fresh_outage [OF f])
  have b: "(\<forall>j<5. timers (outage l s c j) = [?u]) \<and>
            (\<forall>evs. list_all (\<lambda>ev. \<not> discovery ev) evs \<longrightarrow>
               timers (run l (outage l s c 5) evs) = [] \<and>
               \<not> isConnected (run l (outage l s c 5) evs) \<and>
               sockets (run l (outage l s c 5) evs) = sockets (outage l s c 5))"
    if alone: "timers s = [] \<and>
      list_all (\<lambda>k. ready k = CLOSED) (take c (sockets s) @ drop (Suc c) (sockets s))"
  proof -
    have v: "valid_url l ?u" using assms(4) by simp
    have r: "ready k \<noteq> CLOSED" using assms(2) by simp
    have w0: "waiting (step l s (WsClosed c)) ?u 1"
      using drop_waiting_any [OF assms(1) r assms(3), of l] alone by simp
    have w: "waiting (outage l s c j) ?u (1 + j)" if "j < 5" for j
      using failed_attempts_retry [OF w0 v, of j] that by (simp add: outage_def)
    have "\<forall>j<5. timers (outage l s c j) = [?u]"
      using w by (simp add: waiting_def)
    moreover have "outage l s c 5 = failed_attempt l (outage l s c 4)"
      by (simp add: outage_def eval_nat_numeral)
    then have i: "idle (outage l s c 5)"
      using failed_attempt_last [of "outage l s c 4" ?u 5 l] w [of 4] v by simp
    have "\<forall>evs. list_all (\<lambda>ev. \<not> discovery ev) evs \<longrightarrow>
               timers (run l (outage l s c 5) evs) = [] \<and>
               \<not> isConnected (run l (outage l s c 5) evs) \<and>
               sockets (run l (outage l s c 5) evs) = sockets (outage l s c 5)"
      using idle_run [OF i, of _ l] by (simp add: idle_def)
    ultimately show ?thesis by blast
  qed
  have c: "\<forall>s' ev. give_ups (step l s' ev) \<noteq> give_ups s' \<longrightarrow>
            (\<exists>c'. ev = WsClosed c') \<and> 5 \<le> reconnectAttempts s'"
    using give_up_only_on_close [of l] by (simp add: MAX_RECONNECT_ATTEMPTS_def)
  have d: "\<forall>s' c' k'. sock s' c' = Some k' \<and> ready k' \<noteq> CLOSED \<and> 5 \<le> reconnectAttempts s' \<longrightarrow>
            timers (step l s' (WsClosed c')) = timers s' \<and>
            give_ups (step l s' (WsClosed c')) = give_ups s' + 1 \<and>
            error_boxes (step l s' (WsClosed c')) = error_boxes s' + 1"
    using close_event(2) [of _ _ _ l] by blast
  from a b c d show ?thesis
    by blast
qed

text \<open>
  The theorem at the first connection of the scenario, and at a connection made while the
  timer of an earlier outage is pending: there the client gives up on the fifth failed
  attempt as well, and the timer that is left is still pending.
\<close>

theorem retry_budget_is_five_witness:
  "timers (outage lib0 online 0 4) = [''ws://10.0.0.2:8765''] \<and>
   give_ups (outage lib0 online 0 4) = 0 \<and>
   error_boxes (outage lib0 online 0 4) = 0 \<and>
   timers (outage lib0 online 0 5) = [] \<and>
   give_ups (outage lib0 online 0 5) = 1 \<and>
   error_boxes (outage lib0 online 0 5) = 1 \<and>
   timers (run lib0 (outage lib0 online 0 5) [TimerFires, ToBackend ''hi'', WsClosed 5]) = [] \<and>
   timers reselected = [''ws://10.0.0.2:8765''] \<and>
   give_ups (outage lib0 reselected 1 4) = 0 \<and>
   give_ups (outage lib0 reselected 1 5) = 1 \<and>
   error_boxes (outage lib0 reselected 1 5) = 1 \<and>
   timers (outage lib0 reselected 1 5) = [''ws://10.0.0.2:8765'']"
proof -
  let ?u = "''ws://10.0.0.2:8765''"
  let ?k = "\<lparr>sock_url = ?u, ready = OPEN\<rparr>"
  have k: "sock_url ?k = ?u" "ready ?k = OPEN" by simp_all
  have n: "list_all (\<lambda>ev. \<not> discovery ev) [TimerFires, ToBackend ''hi'', WsClosed 5]" by simp
  have four: "(4::nat) < 5" by simp
  have o: "sock online 0 = Some ?k" "reconnectAttempts online = 0"
      "list_all (valid_url lib0) (sock_url ?k # timers online)"
    using online_connected by (simp_all add: connected_def lib0_def)
  have con: "timers online = [] \<and>
      list_all (\<lambda>k. ready k = CLOSED) (take 0 (sockets online) @ drop (Suc 0) (sockets online))"
    using online_connected by (simp add: connected_def)
  from retry_budget_is_five [OF o(1) k(2) o(2,3)]
  have a: "\<forall>j<5. timers (outage lib0 online 0 j) = rotate j (timers online @ [sock_url ?k]) \<and>
             reconnectAttempts (outage lib0 online 0 j) = j + 1 \<and>
             give_ups (outage lib0 online 0 j) = give_ups online \<and>
             error_boxes (outage lib0 online 0 j) = error_boxes online"
    and b: "timers (outage lib0 online 0 5) = tl (rotate 4 (timers online @ [sock_url ?k]))"
      "give_ups (outage lib0 online 0 5) = give_ups online + 1"
      "error_boxes (outage lib0 online 0 5) = error_boxes online + 1"
    and c: "timers online = [] \<and>
        list_all (\<lambda>k. ready k = CLOSED) (take 0 (sockets online) @ drop (Suc 0) (sockets online)) \<longrightarrow>
        (\<forall>j<5. timers (outage lib0 online 0 j) = [sock_url ?k]) \<and>
        (\<forall>evs. list_all (\<lambda>ev. \<not> discovery ev) evs \<longrightarrow>
           timers (run lib0 (outage lib0 online 0 5) evs) = [] \<and>
           \<not> isConnected (run lib0 (outage lib0 online 0 5) evs) \<and>
           sockets (run lib0 (outage lib0 online 0 5) evs) = sockets (outage lib0 online 0 5))"
    by blast+
  from a four have a4: "timers (outage lib0 online 0 4) = rotate 4 (timers online @ [sock_url ?k]) \<and>
             give_ups (outage lib0 online 0 4) = give_ups online \<and>
             error_boxes (outage lib0 online 0 4) = error_boxes online"
    by blast
  have to: "timers online = []"
    using online_connected by (simp add: connected_def)
  from c con n
  have c5: "timers (run lib0 (outage lib0 online 0 5) [TimerFires, ToBackend ''hi'', WsClosed 5]) = []"
    by blast
  have first: "timers (outage lib0 online 0 4) = [?u] \<and>
     give_ups (outage lib0 online 0 4) = 0 \<and> error_boxes (outage lib0 online 0 4) = 0 \<and>
     timers (outage lib0 online 0 5) = [] \<and> give_ups (outage lib0 online 0 5) = 1 \<and>
     error_boxes (outage lib0 online 0 5) = 1"
    using a4 b by (simp add: to give_ups_online error_boxes_online)
  have r1: "sock reselected 1 = Some ?k"
    by (rule reselected_facts(1))
  have r: "reconnectAttempts reselected = 0"
      "list_all (valid_url lib0) (sock_url ?k # timers reselected)"
    by (simp_all add: reselected_facts lib0_def)
  from retry_budget_is_five [OF r1 k(2) r]
  have ra: "\<forall>j<5. timers (outage lib0 reselected 1 j) = rotate j (timers reselected @ [sock_url ?k]) \<and>
             reconnectAttempts (outage lib0 reselected 1 j) = j + 1 \<and>
             give_ups (outage lib0 reselected 1 j) = give_ups reselected \<and>
             error_boxes (outage lib0 reselected 1 j) = error_boxes reselected"
    and rb: "timers (outage lib0 reselected 1 5) = tl (rotate 4 (timers reselected @ [sock_url ?k]))"
      "give_ups (outage lib0 reselected 1 5) = give_ups reselected + 1"
      "error_boxes (outage lib0 reselected 1 5) = error_boxes reselected + 1"
    by blast+
  from ra four have "give_ups (outage lib0 reselected 1 4) = give_ups reselected"
    by blast
  then have second: "timers reselected = [?u] \<and> give_ups (outage lib0 reselected 1 4) = 0 \<and>
     give_ups (outage lib0 reselected 1 5) = 1 \<and> error_boxes (outage lib0 reselected 1 5) = 1 \<and>
     timers (outage lib0 reselected 1 5) = [?u]"
    using rb by (simp add: reselected_facts eval_nat_numeral)
  from first second c5 show ?thesis
    by blast
qed

text \<open>
  C2 as the specification states it (the client gives up on the sixth failed attempt)
  fails: after the drop and four failed attempts it has not given up, after the fifth it
  has, and no timer is pending that could start a sixth.
\<close>

theorem gives_up_on_fifth_failure_counterexample:
  "give_ups (outage lib0 online 0 4) = 0 \<and> give_ups (outage lib0 online 0 5) = 1 \<and>
   timers (outage lib0 online 0 5) = []"
proof -
  have v: "valid_url lib0 ''ws://10.0.0.2:8765''" by (simp add: lib0_def)
  show ?thesis
    using outage_retry [OF online_connected v, of 4] outage_end [OF online_connected v]
    by (simp add: give_ups_online idle_def)
qed

subsection \<open>C3: the delay between reconnection attempts\<close>

text \<open>
  C3, as the code has it: every reconnection timer that the client ever sets has the same
  delay, \<^verbatim>\<open>RECONNECT_INTERVAL\<close> = 2000 ms, whatever the number of the attempt. The delays
  of consecutive attempts are equal; there is no backoff and no ceiling.
\<close>

theorem reconnect_delay_is_constant:
  "list_all (\<lambda>d. d = 2000) (delays (trace (run l (initial c f) evs)))"
  using delays_run [of "initial c f" l evs] by (simp add: initial_def RECONNECT_INTERVAL_def)

text \<open>The theorem at the run that connects, opens and drops: one timer, of 2000 ms.\<close>

theorem reconnect_delay_is_constant_witness:
  "delays (trace dropped) = [2000] \<and>
   list_all (\<lambda>d. d = 2000)
     (delays (trace (run lib0 (initial DEFAULT_CONFIG None)
        [ConnectToContainer env1, WsOpened 0, WsClosed 0])))"
  using reconnect_delay_is_constant [of lib0 DEFAULT_CONFIG None
      "[ConnectToContainer env1, WsOpened 0, WsClosed 0]"]
  by (simp add: dropped_eq online_eq)

text \<open>
  C3 as the specification states it (a later delay strictly greater than the earlier one)
  fails: after the drop and one failed attempt the two delays set since the connection
  was open are both 2000 ms.
\<close>

theorem reconnect_delay_counterexample:
  "delays (since online (failed_attempt lib0 dropped)) = [2000, 2000]"
  by (simp add: failed_attempt_def run_def dropped_eq online_eq client_defs since_def lib0_def
        MAX_RECONNECT_ATTEMPTS_def RECONNECT_INTERVAL_def)

subsection \<open>C4: closing the connection\<close>

text \<open>
  C4, as the code has it: \<^verbatim>\<open>disconnectFromContainer\<close> is idempotent. A second call in a row
  changes nothing and has no effect on the outside (no second \<^verbatim>\<open>close()\<close> on a socket, so no
  second \<^verbatim>\<open>close\<close> event); after either call there is no current socket and \<open>isConnected\<close>
  is false. It does not cancel a reconnection timer: the timers pending before the call
  are pending after it.
\<close>

theorem disconnect_idempotent_keeps_timers:
  "disconnectFromContainer (disconnectFromContainer s) = disconnectFromContainer s \<and>
   since (disconnectFromContainer s) (disconnectFromContainer (disconnectFromContainer s)) = [] \<and>
   wsClient (disconnectFromContainer s) = None \<and>
   \<not> isConnected (disconnectFromContainer s) \<and>
   timers (disconnectFromContainer s) = timers s"
  by (auto simp: disconnectFromContainer_def emit_def set_ready_def since_def split: option.splits)

text \<open>
  C4 as the specification states it (no reconnection attempt fires from a timer set before
  \<^verbatim>\<open>close()\<close>) fails: after the drop a timer is pending; two calls of
  \<^verbatim>\<open>disconnectFromContainer\<close> leave it pending, and when it fires a new socket is created.
\<close>

theorem close_leaves_timer_counterexample:
  "timers (disconnectFromContainer (disconnectFromContainer dropped)) = [''ws://10.0.0.2:8765''] \<and>
   since (disconnectFromContainer (disconnectFromContainer dropped))
         (step lib0 (disconnectFromContainer (disconnectFromContainer dropped)) TimerFires) =
     [Console Log ''Connecting to WebSocket at ws://10.0.0.2:8765...'',
      WsNew 1 ''ws://10.0.0.2:8765'']"
  by (simp add: dropped_eq online_eq client_defs since_def lib0_def)

subsection \<open>C5: connecting without asking\<close>




subsection \<open>C6: a frame that is not JSON\<close>

text \<open>
  C6: when \<^verbatim>\<open>JSON.parse\<close> throws on a frame received on an open socket, the handler logs
  the error and does nothing else: the frame is not forwarded to the renderer, the socket,
  the current client and the connection flag are as before, and the next frame that does
  parse is forwarded as usual.
\<close>

theorem malformed_frame_is_dropped:
  assumes "JSON_parse l m = None" "sock s c = Some k" "ready k = OPEN"
  shows "step l s (WsMessage c m) = emit [Console Error ''Error parsing message:''] s \<and>
         sock (step l s (WsMessage c m)) c = Some k \<and>
         wsClient (step l s (WsMessage c m)) = wsClient s \<and>
         isConnected (step l s (WsMessage c m)) = isConnected s \<and>
         (\<forall>m' d. JSON_parse l m' = Some d \<and> mainWindow s \<longrightarrow>
            since (step l s (WsMessage c m)) (step l (step l s (WsMessage c m)) (WsMessage c m')) =
              [Console Log ''Received from backend:'', FromBackend d])"
  using assms
  by (simp add: on_message_def emit_def sock_def since_def)

text \<open>The theorem on the open connection: a bad frame, then a good one.\<close>

theorem malformed_frame_is_dropped_witness:
  "since online (step lib0 online (WsMessage 0 ''oops'')) = [Console Error ''Error parsing message:''] \<and>
   since (step lib0 online (WsMessage 0 ''oops''))
         (step lib0 (step lib0 online (WsMessage 0 ''oops'')) (WsMessage 0 ''{}'')) =
     [Console Log ''Received from backend:'', FromBackend ''{}'']"
proof -
  have a: "JSON_parse lib0 ''oops'' = None" by (simp add: lib0_def)
  have b: "sock online 0 = Some \<lparr>sock_url = ''ws://10.0.0.2:8765'', ready = OPEN\<rparr>"
    by (simp add: online_eq sock_def nth_opt_def)
  have b': "ready \<lparr>sock_url = ''ws://10.0.0.2:8765'', ready = OPEN\<rparr> = OPEN"
    by simp
  have c: "JSON_parse lib0 ''{}'' = Some ''{}'' \<and> mainWindow online"
    by (simp add: lib0_def online_eq)
  from malformed_frame_is_dropped [OF a b b'] c
  have r1: "step lib0 online (WsMessage 0 ''oops'') = emit [Console Error ''Error parsing message:''] online"
    and r2: "since (step lib0 online (WsMessage 0 ''oops''))
         (step lib0 (step lib0 online (WsMessage 0 ''oops'')) (WsMessage 0 ''{}'')) =
     [Console Log ''Received from backend:'', FromBackend ''{}'']"
    by blast+
  have "since online (step lib0 online (WsMessage 0 ''oops'')) = [Console Error ''Error parsing message:'']"
    by (simp only: r1 since_def trace_emit append_eq_conv_conj drop_all) (simp add: since_def)
  with r2 show ?thesis by blast
qed

subsection \<open>C7: when a container yields an address\<close>

text \<open>
  C7: \<^verbatim>\<open>connectToContainer\<close> returns connection information if and only if the container's
  address is known (\<^verbatim>\<open>docker inspect\<close> succeeds with output that is not blank) and both the
  web server port and the WebSocket port accept a TCP connect in less than the 1000 ms of
  the probe timer; the information is then the two URLs of that address. In every other
  case it throws and there is no address.
\<close>

theorem connectToContainer_succeeds_iff:
  "fst (connectToContainer e containerId s) = Inr info \<longleftrightarrow>
     (\<exists>output. docker_inspect e containerId = Some output \<and> trim output \<noteq> [] \<and>
        (\<exists>t<1000. tcp e (trim output) (containerPort (containerConfig s)) = Connects t) \<and>
        (\<exists>t<1000. tcp e (trim output) (websocketPort (containerConfig s)) = Connects t) \<and>
        info = \<lparr>webUrl = ''http://'' @ trim output @ '':'' @ show_nat (containerPort (containerConfig s)),
                websocketUrl = ''ws://'' @ trim output @ '':'' @ show_nat (websocketPort (containerConfig s))\<rparr>)"
  by (auto simp: connectToContainer_def getContainerIP_def checkPort_def PROBE_TIMEOUT_def
        Let_def emit_def split: option.splits probe.splits)

text \<open>The theorem at a container that answers on both ports after 5 ms.\<close>

theorem connectToContainer_succeeds_iff_witness:
  "fst (connectToContainer env1 ''aaa'' start0) =
     Inr \<lparr>webUrl = ''http://10.0.0.2:8080'', websocketUrl = ''ws://10.0.0.2:8765''\<rparr>"
  using connectToContainer_succeeds_iff [of env1 "''aaa''" start0
      "\<lparr>webUrl = ''http://10.0.0.2:8080'', websocketUrl = ''ws://10.0.0.2:8765''\<rparr>"]
  by (simp add: scenario_defs trim_def is_space_def show_nat_8080 show_nat_8765)

subsection \<open>C8: the selection is saved before the address is handed over\<close>




subsection \<open>C9: a successful open restores the budget\<close>

text \<open>
  C9, as the code has it: the \<^verbatim>\<open>open\<close> handler always leaves the counter of reconnection
  attempts at 0, so when a connecting socket opens the counter is 0 again, whatever it
  was, and it is still 0 after any events that follow as long as none of them is a
  \<^verbatim>\<open>close\<close> event; the client does not give up meanwhile. When the connection of that
  socket then drops -- the first \<^verbatim>\<open>close\<close> event since the \<open>open\<close> -- and the attempts that
  follow fail, with no other event in between, the whole budget is available: after the
  drop and after each of up to four failed attempts a timer is set, the counter is the
  number of attempts of this outage and the client has not given up; it gives up, with
  the error box, when the fifth attempt fails. (\<^verbatim>\<open>new WebSocket\<close> is assumed to accept the
  URL of the socket and of every pending timer.)
\<close>

theorem open_restores_retry_budget:
  fixes l :: "'j lib" and s :: "'j main" and c :: nat and evs :: "'j event list"
  defines "opened \<equiv> run l (step l s (WsOpened c)) evs"
  assumes "sock s c = Some k" "ready k = CONNECTING"
    "list_all (valid_url l) (sock_url k # timers s)" "list_all (\<lambda>ev. \<not> closing ev) evs"
  shows "(\<forall>s' :: 'j main. reconnectAttempts (on_open s') = 0) \<and>
         reconnectAttempts (step l s (WsOpened c)) = 0 \<and>
         reconnectAttempts opened = 0 \<and>
         give_ups opened = give_ups s \<and>
         (\<forall>j<5. timers (outage l opened c j)
                   = rotate j (timers opened @ [sock_url k]) \<and>
                 reconnectAttempts (outage l opened c j) = j + 1 \<and>
                 give_ups (outage l opened c j) = give_ups s \<and>
                 error_boxes (outage l opened c j) = error_boxes opened) \<and>
         give_ups (outage l opened c 5) = give_ups s + 1 \<and>
         error_boxes (outage l opened c 5) = error_boxes opened + 1"
proof -
  have o: "reconnectAttempts (on_open s') = 0" for s' :: "'j main"
    by (simp add: on_open_def Let_def emit_def)
  have f1: "fresh c (sock_url k) l (step l s (WsOpened c))"
    by (rule fresh_open [OF assms(2-4)])
  have f: "fresh c (sock_url k) l opened"
    unfolding opened_def by (rule fresh_run [OF f1 assms(5)])
  have g1: "give_ups (step l s (WsOpened c)) = give_ups s"
    using give_up_only_on_close [of l s "WsOpened c"] by auto
  have g: "give_ups opened = give_ups s"
    unfolding opened_def using give_ups_run [OF assms(5), of l "step l s (WsOpened c)"] g1 by simp
  from fresh_outage [OF f] g f f1 o show ?thesis
    by (simp add: fresh_def)
qed

text \<open>
  The theorem where the counter is already 5: the fifth attempt of a first outage is in
  flight and succeeds; a message is sent and one received; then a second outage gets four
  more attempts after its drop and ends with the fifth.
\<close>

theorem open_restores_retry_budget_witness:
  "reconnectAttempts (step lib0 (outage lib0 online 0 4) TimerFires) = 5 \<and>
   reconnectAttempts (step lib0 (step lib0 (outage lib0 online 0 4) TimerFires) (WsOpened 5)) = 0 \<and>
   reconnectAttempts
     (outage lib0 (run lib0 (step lib0 (step lib0 (outage lib0 online 0 4) TimerFires) (WsOpened 5))
        [ToBackend ''hi'', WsMessage 5 ''{}'']) 5 4) = 5 \<and>
   give_ups
     (outage lib0 (run lib0 (step lib0 (step lib0 (outage lib0 online 0 4) TimerFires) (WsOpened 5))
        [ToBackend ''hi'', WsMessage 5 ''{}'']) 5 4) = 0 \<and>
   give_ups
     (outage lib0 (run lib0 (step lib0 (step lib0 (outage lib0 online 0 4) TimerFires) (WsOpened 5))
        [ToBackend ''hi'', WsMessage 5 ''{}'']) 5 5) = 1"
proof -
  let ?u = "''ws://10.0.0.2:8765''"
  let ?k = "\<lparr>sock_url = ?u, ready = CONNECTING\<rparr>"
  have v: "valid_url lib0 ?u" by (simp add: lib0_def)
  have w: "waiting (outage lib0 online 0 4) ?u 5"
    and g: "give_ups (outage lib0 online 0 4) = 0"
    and n: "length (sockets (outage lib0 online 0 4)) = 5"
    using outage_retry [OF online_connected v, of 4] by (simp_all add: give_ups_online sockets_online)
  let ?t = "step lib0 (outage lib0 online 0 4) TimerFires"
  have c: "connecting ?t 5 ?u" and r: "reconnectAttempts ?t = 5" and h: "give_ups ?t = 0"
    using timer_connecting [OF w v] n g by simp_all
  have k: "sock ?t 5 = Some ?k" "ready ?k = CONNECTING"
      "list_all (valid_url lib0) (sock_url ?k # timers ?t)"
    using c by (simp_all add: connecting_def lib0_def)
  have e: "list_all (\<lambda>ev. \<not> closing ev) [ToBackend ''hi'', WsMessage 5 ''{}'']" by simp
  let ?o = "run lib0 (step lib0 ?t (WsOpened 5)) [ToBackend ''hi'', WsMessage 5 ''{}'']"
  from open_restores_retry_budget [OF k e]
  have a: "reconnectAttempts (step lib0 ?t (WsOpened 5)) = 0"
    and b: "\<forall>j<5. timers (outage lib0 ?o 5 j) = rotate j (timers ?o @ [sock_url ?k]) \<and>
                 reconnectAttempts (outage lib0 ?o 5 j) = j + 1 \<and>
                 give_ups (outage lib0 ?o 5 j) = give_ups ?t \<and>
                 error_boxes (outage lib0 ?o 5 j) = error_boxes ?o"
    and d: "give_ups (outage lib0 ?o 5 5) = give_ups ?t + 1"
    by blast+
  have "(4::nat) < 5" by simp
  with b have "reconnectAttempts (outage lib0 ?o 5 4) = 4 + 1 \<and>
      give_ups (outage lib0 ?o 5 4) = give_ups ?t"
    by blast
  with a r h d show ?thesis
    by (simp only:) simp
qed

text \<open>
  C9 as the specification states it (the whole budget at every drop that follows a
  successful \<open>open\<close>) fails: the counter is one for the process and every socket object
  keeps its handlers. While connected the user selects the container again; the new
  socket opens and the counter is 0; then the \<^verbatim>\<open>close\<close> event of the replaced socket is
  counted, with the new socket open. When the new connection drops the counter is already
  2, and the client gives up when the fourth attempt fails.
\<close>

theorem replaced_socket_uses_budget_counterexample:
  "reconnectAttempts (run lib0 online [ConnectToContainer env1, WsOpened 1]) = 0 \<and>
   wsClient_open replaced \<and> reconnectAttempts replaced = 1 \<and>
   reconnectAttempts (step lib0 replaced (WsClosed 1)) = 2 \<and>
   give_ups (outage lib0 replaced 1 3) = 0 \<and> give_ups (outage lib0 replaced 1 4) = 1"
proof -
  let ?u = "''ws://10.0.0.2:8765''"
  let ?d = "step lib0 replaced (WsClosed 1)"
  have v: "valid_url lib0 ?u" by (simp add: lib0_def)
  have r: "wsClient_open replaced \<and> reconnectAttempts replaced = 1"
    by (simp add: replaced_eq online_eq wsClient_open_def sock_def nth_opt_def)
  have s0: "timers ?d = [?u, ?u]" "reconnectAttempts ?d = 2" "give_ups ?d = 0"
    using replaced_drop by simp_all
  let ?a1 = "failed_attempt lib0 ?d"
  have s1: "timers ?a1 = [?u, ?u]" "reconnectAttempts ?a1 = 3" "give_ups ?a1 = 0"
    using failed_attempt_counts [OF s0(1) v] s0(2,3) by simp_all
  let ?a2 = "failed_attempt lib0 ?a1"
  have s2: "timers ?a2 = [?u, ?u]" "reconnectAttempts ?a2 = 4" "give_ups ?a2 = 0"
    using failed_attempt_counts [OF s1(1) v] s1(2,3) by simp_all
  let ?a3 = "failed_attempt lib0 ?a2"
  have s3: "timers ?a3 = [?u, ?u]" "reconnectAttempts ?a3 = 5" "give_ups ?a3 = 0"
    using failed_attempt_counts [OF s2(1) v] s2(2,3) by simp_all
  let ?a4 = "failed_attempt lib0 ?a3"
  have s4: "give_ups ?a4 = 1"
    using failed_attempt_counts [OF s3(1) v] s3(2,3) by simp
  have "outage lib0 replaced 1 3 = ?a3" "outage lib0 replaced 1 4 = ?a4"
    by (simp_all add: outage_def eval_nat_numeral del: step.simps)
  with s0(2) s3(3) s4 r reopened_counter show ?thesis
    by (simp del: step.simps)
qed

subsection \<open>C10: a failed connectToContainer leaves the configuration alone\<close>

text \<open>
  C10: when \<^verbatim>\<open>connectToContainer\<close> throws, the configuration object and the configuration
  file are as before and no write of the file was attempted. The object is changed and
  \<^verbatim>\<open>saveConfig\<close> is called only when the address is known and both port checks have
  succeeded.
\<close>

theorem connectToContainer_failure_keeps_config:
  assumes "connectToContainer e containerId s = (r, s')"
  shows "(\<forall>message. r = Inl message \<longrightarrow>
            containerConfig s' = containerConfig s \<and> configFile s' = configFile s \<and>
            (\<forall>c. WriteFile c \<notin> set (since s s'))) \<and>
         (containerConfig s' \<noteq> containerConfig s \<or> configFile s' \<noteq> configFile s \<or>
            (\<exists>c. WriteFile c \<in> set (since s s')) \<longrightarrow>
          (\<exists>output. docker_inspect e containerId = Some output \<and> trim output \<noteq> [] \<and>
             checkPort e (trim output) (containerPort (containerConfig s)) \<and>
             checkPort e (trim output) (websocketPort (containerConfig s))))"
  using assms
  by (auto simp: connectToContainer_def getContainerIP_def saveConfig_def since_def
        Let_def emit_def split: option.splits if_splits)

text \<open>The theorem at a container whose ports do not answer.\<close>

theorem connectToContainer_failure_keeps_config_witness:
  "containerConfig (snd (connectToContainer env_closed ''aaa'' start0)) = DEFAULT_CONFIG \<and>
   configFile (snd (connectToContainer env_closed ''aaa'' start0)) = None \<and>
   WriteFile DEFAULT_CONFIG \<notin> set (since start0 (snd (connectToContainer env_closed ''aaa'' start0)))"
proof -
  have h: "connectToContainer env_closed ''aaa'' start0 =
      (Inl ''Web server port 8080 is not open on the container'',
       snd (connectToContainer env_closed ''aaa'' start0))"
    by (simp add: scenario_defs connectToContainer_def getContainerIP_def checkPort_def
        trim_def is_space_def show_nat_8080 Let_def)
  from connectToContainer_failure_keeps_config [OF h] show ?thesis
    by (simp add: start0_def initial_def)
qed

end
